theory Spec2Isabelle
  imports Main "HOL-Library.Sublist"
begin

section \<open>Python values, strings and exceptions\<close>

text \<open>
  The context of a pipeline run is a \<open>dict[str, Any]\<close> and a lifecycle hook is a
  \<open>dict[str, Any]\<close>. Dynamic values are modelled by \<open>pyval\<close>; a dictionary nested in
  a value is an association list with string keys (the first binding of a key counts).
\<close>

datatype pyval =
    PNone
  | PBool bool
  | PInt int
  | PStr string
  | PList "pyval list"
  | PDict "(string \<times> pyval) list"

text \<open>
  An exception object: whether its class derives from \<open>Exception\<close> (\<open>KeyboardInterrupt\<close>,
  \<open>SystemExit\<close> and \<open>GeneratorExit\<close> derive from \<open>BaseException\<close> only, and a clause
  \<open>except Exception\<close> does not catch them), the name of its class and its argument.
\<close>

datatype exn = Exn (exc_is_Exception: bool) (exc_type_name: string) (exc_arg: string)

definition KeyError :: "string \<Rightarrow> exn" where
  "KeyError msg = Exn True ''KeyError'' msg"

definition TypeError :: "string \<Rightarrow> exn" where
  "TypeError msg = Exn True ''TypeError'' msg"

definition py_truthy :: "pyval \<Rightarrow> bool" where
  "py_truthy v = (case v of
       PNone \<Rightarrow> False
     | PBool b \<Rightarrow> b
     | PInt i \<Rightarrow> i \<noteq> 0
     | PStr s \<Rightarrow> s \<noteq> []
     | PList xs \<Rightarrow> xs \<noteq> []
     | PDict d \<Rightarrow> d \<noteq> [])"

text \<open>\<open>sub in s\<close> on two strings: \<open>sub\<close> occurs in \<open>s\<close> as a contiguous run.\<close>

fun str_contains :: "string \<Rightarrow> string \<Rightarrow> bool" where
  "str_contains [] sub = (sub = [])"
| "str_contains (c # cs) sub = (prefix sub (c # cs) \<or> str_contains cs sub)"

text \<open>
  \<open>key in v\<close> for a string \<open>key\<close>: membership in a list, key membership in a
  dictionary, substring test on a string, and a \<open>TypeError\<close> on a value that is not a
  container.
\<close>

definition py_in :: "string \<Rightarrow> pyval \<Rightarrow> exn + bool" where
  "py_in key v = (case v of
       PList xs \<Rightarrow> Inr (PStr key \<in> set xs)
     | PDict d \<Rightarrow> Inr (map_of d key \<noteq> None)
     | PStr s \<Rightarrow> Inr (str_contains s key)
     | _ \<Rightarrow> Inl (TypeError ''argument is not iterable''))"

text \<open>\<open>v[key]\<close> for a string \<open>key\<close>.\<close>

definition py_getitem :: "pyval \<Rightarrow> string \<Rightarrow> exn + pyval" where
  "py_getitem v key = (case v of
       PDict d \<Rightarrow> (case map_of d key of Some x \<Rightarrow> Inr x | None \<Rightarrow> Inl (KeyError key))
     | PStr s \<Rightarrow> Inl (TypeError ''string indices must be integers'')
     | PList xs \<Rightarrow> Inl (TypeError ''list indices must be integers or slices'')
     | _ \<Rightarrow> Inl (TypeError ''object is not subscriptable''))"

text \<open>\<open>d.get(key, default)\<close> on a dictionary.\<close>

definition dict_get :: "(string \<times> pyval) list \<Rightarrow> string \<Rightarrow> pyval \<Rightarrow> pyval" where
  "dict_get d key dflt = (case map_of d key of Some x \<Rightarrow> x | None \<Rightarrow> dflt)"

text \<open>
  \<open>s.replace(old, new)\<close>: every occurrence of \<open>old\<close>, leftmost first and without
  overlap. With an empty \<open>old\<close> Python puts \<open>new\<close> before every character and at the end.
\<close>

fun replace_from :: "string \<Rightarrow> string \<Rightarrow> string \<Rightarrow> string" where
  "replace_from old new [] = []"
| "replace_from old new (c # cs) =
     (if prefix old (c # cs) \<and> old \<noteq> []
      then new @ replace_from old new (drop (length old - 1) cs)
      else c # replace_from old new cs)"

definition str_replace :: "string \<Rightarrow> string \<Rightarrow> string \<Rightarrow> string" where
  "str_replace s old new =
     (if old = [] then new @ concat (map (\<lambda>c. c # new) s) else replace_from old new s)"

text \<open>\<open>s.split("/", 1)[0]\<close> and \<open>s.split("/", 1)[-1]\<close>.\<close>

definition split1_first :: "string \<Rightarrow> string" where
  "split1_first s = takeWhile (\<lambda>c. c \<noteq> CHR ''/'') s"

definition split1_last :: "string \<Rightarrow> string" where
  "split1_last s =
     (if CHR ''/'' \<in> set s then tl (dropWhile (\<lambda>c. c \<noteq> CHR ''/'') s) else s)"

text \<open>\<open>s.split(":")\<close>: there is always at least one section.\<close>

fun split_colon :: "string \<Rightarrow> string list" where
  "split_colon [] = [[]]"
| "split_colon (c # cs) =
     (if c = CHR '':'' then [] # split_colon cs
      else (case split_colon cs of
              [] \<Rightarrow> [[c]]
            | x # xs \<Rightarrow> (c # x) # xs))"

text \<open>\<open>":".join(xs)\<close>.\<close>

fun join_colon :: "string list \<Rightarrow> string" where
  "join_colon [] = []"
| "join_colon [x] = x"
| "join_colon (x # y # ys) = x @ '':'' @ join_colon (y # ys)"

text \<open>
  \<open>s.lower()\<close>, on the ASCII letters; every other character is kept. No property below
  depends on which characters \<open>lower\<close> changes.
\<close>

definition lower_char :: "char \<Rightarrow> char" where
  "lower_char c =
     (case map_of (zip ''ABCDEFGHIJKLMNOPQRSTUVWXYZ'' ''abcdefghijklmnopqrstuvwxyz'') c of
        Some l \<Rightarrow> l
      | None \<Rightarrow> c)"

definition lower :: "string \<Rightarrow> string" where
  "lower s = map lower_char s"

text \<open>\<open>os.path.split(p)[1]\<close>: what follows the last slash.\<close>

definition basename :: "string \<Rightarrow> string" where
  "basename p = rev (takeWhile (\<lambda>c. c \<noteq> CHR ''/'') (rev p))"

text \<open>\<open>"{}".format(n)\<close> for an integer.\<close>

fun digits :: "nat \<Rightarrow> string" where
  "digits n =
     (if n < 10 then [''0123456789'' ! n]
      else digits (n div 10) @ [''0123456789'' ! (n mod 10)])"

definition str_int :: "int \<Rightarrow> string" where
  "str_int i = (if i < 0 then CHR ''-'' # digits (nat (- i)) else digits (nat i))"

section \<open>Constants of the module\<close>

definition STATUS_CODE :: string where "STATUS_CODE = ''StatusCode''"
definition STATUS_REASON :: string where "STATUS_REASON = ''StatusReason''"

definition LC_TYPE_STATUS :: string where "LC_TYPE_STATUS = ''status''"
definition LC_HOOK_PENDING :: string where "LC_HOOK_PENDING = ''Pending''"
definition LC_HOOK_FAILED :: string where "LC_HOOK_FAILED = ''Failed''"
definition LC_HOOK_RUNNING :: string where "LC_HOOK_RUNNING = ''Running''"
definition LC_HOOK_COMPLETE :: string where "LC_HOOK_COMPLETE = ''Complete''"

datatype StatusCode = PENDING | RUNNING | COMPLETE | FAILED

fun StatusCode_value :: "StatusCode \<Rightarrow> string" where
  "StatusCode_value PENDING = ''pending''"
| "StatusCode_value RUNNING = ''running''"
| "StatusCode_value COMPLETE = ''complete''"
| "StatusCode_value FAILED = ''failed''"

definition NO_DEFAULT :: pyval where
  "NO_DEFAULT = PStr ''_!NO!DEFAULT!PROVIDED!_''"

section \<open>The action and its state\<close>

type_synonym hook = "(string \<times> pyval) list"

record ActionDefinition =
  Label :: string
  Type :: string
  Condition :: string
  Before :: "string list"
  After :: "string list"
  DependsOn :: "string list"
  LifecycleHooks :: "hook list"
  SaveOutputs :: bool

text \<open>The fields \<open>BaseAction.__init__\<close> sets and never changes afterwards.\<close>

record action =
  label :: string
  action_name :: string
  output_namespace :: "string option"
  state_namespace :: string
  type :: string
  condition :: string
  before :: "string list"
  after :: "string list"
  lifecycle_hooks :: "hook list"

text \<open>
  What the tracking collaborator is asked to do: \<open>update_status(prn, status, message,
  details)\<close>, where an argument that is not passed is \<open>None\<close> here, and
  \<open>update_item(prn, released_build_prn)\<close>.
\<close>

datatype db_call =
    UpdateStatus string string "string option" "pyval option"
  | UpdateItem string string

text \<open>
  The observable steps of a call, in order: a write \<open>__set_context\<close> makes, the
  dispatch of one lifecycle hook, a call of the tracking collaborator and a warning logged.
  \<open>log.debug\<close>, \<open>log.set_identity\<close> and \<open>log.reset_identity\<close> touch the logger only and are
  left out.
\<close>

datatype effect =
    SetContext string pyval
  | HookFired string hook
  | Db db_call
  | LogWarn string

record state =
  "context" :: "string \<rightharpoonup> pyval"
  trace :: "effect list"

definition emit :: "effect \<Rightarrow> state \<Rightarrow> state" where
  "emit ev s = s\<lparr>trace := trace s @ [ev]\<rparr>"

definition init :: "ActionDefinition \<Rightarrow> action" where
  "init definition =
     \<lparr> label = Label definition,
       action_name = split1_last (Label definition),
       output_namespace =
         (if SaveOutputs definition
          then Some (str_replace (split1_first (Label definition)) '':action'' '':output'')
          else None),
       state_namespace = str_replace (Label definition) '':action/'' '':var/'',
       type = Type definition,
       condition = Condition definition,
       before = Before definition,
       after = After definition @ DependsOn definition,
       lifecycle_hooks = LifecycleHooks definition \<rparr>"

definition context_key :: "string \<Rightarrow> string \<Rightarrow> string" where
  "context_key prn name = prn @ ''/'' @ name"

text \<open>
  \<open>__get_context(prn, name, default)\<close>; a call without the third argument passes
  \<open>NO_DEFAULT\<close>.
\<close>

definition get_context :: "state \<Rightarrow> string \<Rightarrow> string \<Rightarrow> pyval \<Rightarrow> exn + pyval" where
  "get_context s prn name dflt =
     (let key = context_key prn name in
      if context s \<noteq> Map.empty \<and> context s key \<noteq> None then Inr (the (context s key))
      else if dflt = NO_DEFAULT
      then Inl (KeyError (''Key '' @ [CHR 0x27] @ name @ [CHR 0x27]
                  @ '' is not in the context and no default was provided''))
      else Inr dflt)"

definition set_context :: "string \<Rightarrow> string \<Rightarrow> pyval \<Rightarrow> state \<Rightarrow> state" where
  "set_context prn name v s =
     (let key = context_key prn name in
      emit (SetContext key v)
        (if context s = Map.empty then s\<lparr>context := [key \<mapsto> v]\<rparr>
         else s\<lparr>context := (context s)(key \<mapsto> v)\<rparr>))"

definition set_output :: "action \<Rightarrow> string \<Rightarrow> pyval \<Rightarrow> state \<Rightarrow> state" where
  "set_output a name v s =
     (let s1 = (case output_namespace a of
                  Some ns \<Rightarrow> set_context ns name v s
                | None \<Rightarrow> s)
      in set_context (state_namespace a) name v s1)"

definition get_output :: "action \<Rightarrow> state \<Rightarrow> string \<Rightarrow> exn + pyval" where
  "get_output a s name =
     (case output_namespace a of
        None \<Rightarrow> Inr PNone
      | Some ns \<Rightarrow> get_context s ns name NO_DEFAULT)"

definition set_state :: "action \<Rightarrow> string \<Rightarrow> pyval \<Rightarrow> state \<Rightarrow> state" where
  "set_state a name v s = set_context (state_namespace a) name v s"

definition get_state :: "action \<Rightarrow> state \<Rightarrow> string \<Rightarrow> exn + pyval" where
  "get_state a s name = get_context s (state_namespace a) name NO_DEFAULT"

section \<open>The collaborators\<close>

text \<open>
  What the module imports and the Python runtime provides, taken as parameters:
  the template renderer (\<open>Jinja2Renderer.render_string\<close>, which returns a string or
  raises), the tracking collaborator (\<open>update_status\<close> and \<open>update_item\<close> of
  \<open>core_db.dbhelper\<close>, which return nothing; \<open>db_raises\<close> says what a call raises, if
  anything, given everything observed so far), the constant \<open>RELEASE_IN_PROGRESS\<close> of
  \<open>core_framework.status\<close>, the traceback \<open>sys.exc_info()\<close> gives for an exception being
  handled (the file name of its frame's code and its line number, \<open>None\<close> without a
  traceback), \<open>traceback.format_exception\<close>, and \<open>str\<close> on an exception and on a value.
\<close>

record env =
  render_string :: "pyval \<Rightarrow> (string \<rightharpoonup> pyval) \<Rightarrow> exn + string"
  db_raises :: "effect list \<Rightarrow> db_call \<Rightarrow> exn option"
  RELEASE_IN_PROGRESS :: string
  exc_tb :: "exn \<Rightarrow> (string \<times> int) option"
  format_exception :: "exn \<Rightarrow> string"
  str_exc :: "exn \<Rightarrow> string"
  str_val :: "pyval \<Rightarrow> string"

text \<open>
  The methods of the concrete action (\<open>_resolve\<close>, \<open>_execute\<close>, \<open>_check\<close>): each takes
  the state, changes it and returns normally (\<open>None\<close>) or raises.
\<close>

record concrete =
  impl_resolve :: "state \<Rightarrow> exn option \<times> state"
  impl_execute :: "state \<Rightarrow> exn option \<times> state"
  impl_check :: "state \<Rightarrow> exn option \<times> state"

definition call_db :: "env \<Rightarrow> db_call \<Rightarrow> state \<Rightarrow> exn option \<times> state" where
  "call_db env c s = (db_raises env (trace s) c, emit (Db c) s)"

section \<open>Status propagation\<close>

text \<open>The two blocks of the \<open>try\<close> body of \<open>__update_item_status\<close>, and the body.\<close>

definition update_build ::
  "env \<Rightarrow> string list \<Rightarrow> string \<Rightarrow> string \<Rightarrow> pyval \<Rightarrow> state \<Rightarrow> exn option \<times> state" where
  "update_build env prn_sections status message details s =
     (if length prn_sections = 5
      then (let build_prn = join_colon (take 5 prn_sections) in
            case call_db env (UpdateStatus build_prn status (Some message) (Some details)) s of
              (Some e, s1) \<Rightarrow> (Some e, s1)
            | (None, s1) \<Rightarrow>
                if status = RELEASE_IN_PROGRESS env
                then call_db env (UpdateItem (join_colon (take 4 prn_sections)) build_prn) s1
                else (None, s1))
      else (None, s))"

definition update_component ::
  "env \<Rightarrow> string list \<Rightarrow> string \<Rightarrow> string \<Rightarrow> pyval \<Rightarrow> state \<Rightarrow> exn option \<times> state" where
  "update_component env prn_sections status message details s =
     (if length prn_sections = 6
      then (let component_prn = join_colon (take 6 prn_sections) in
            case call_db env (UpdateStatus component_prn status (Some message) (Some details)) s of
              (Some e, s1) \<Rightarrow> (Some e, s1)
            | (None, s1) \<Rightarrow>
                if str_contains status ''_FAILED''
                then call_db env (UpdateStatus (join_colon (take 5 prn_sections)) status None None) s1
                else (None, s1))
      else (None, s))"

definition update_item_status_body ::
  "env \<Rightarrow> string \<Rightarrow> string \<Rightarrow> string \<Rightarrow> pyval \<Rightarrow> state \<Rightarrow> exn option \<times> state" where
  "update_item_status_body env identity status message details s =
     (let prn_sections = split_colon identity in
      case update_build env prn_sections status message details s of
        (Some e, s1) \<Rightarrow> (Some e, s1)
      | (None, s1) \<Rightarrow> update_component env prn_sections status message details s1)"

definition update_item_status ::
  "env \<Rightarrow> string \<Rightarrow> string \<Rightarrow> string \<Rightarrow> pyval \<Rightarrow> state \<Rightarrow> exn option \<times> state" where
  "update_item_status env identity status message details s =
     (case update_item_status_body env identity status message details s of
        (None, s1) \<Rightarrow> (None, s1)
      | (Some e, s1) \<Rightarrow>
          if exc_is_Exception e
          then (None, emit (LogWarn (''Failed to update status via API - '' @ str_exc env e)) s1)
          else (Some e, s1))"

section \<open>Lifecycle hooks\<close>

text \<open>
  \<open>__get_status_parameter\<close> and \<open>__get_message_parameter\<close> differ in the name of the
  field only.
\<close>

definition get_on_event_parameter :: "string \<Rightarrow> string \<Rightarrow> hook \<Rightarrow> exn + pyval" where
  "get_on_event_parameter field event hook =
     (let key = ''On'' @ event;
          parms = dict_get hook ''Parameters'' (PDict [])
      in case py_in key parms of
           Inl e \<Rightarrow> Inl e
         | Inr False \<Rightarrow> Inr PNone
         | Inr True \<Rightarrow>
             (case py_getitem parms key of
                Inl e \<Rightarrow> Inl e
              | Inr action \<Rightarrow>
                  (case py_in field action of
                     Inl e \<Rightarrow> Inl e
                   | Inr True \<Rightarrow> py_getitem action field
                   | Inr False \<Rightarrow> Inr PNone)))"

definition get_status_parameter :: "string \<Rightarrow> hook \<Rightarrow> exn + pyval" where
  "get_status_parameter event hook = get_on_event_parameter ''Status'' event hook"

definition get_message_parameter :: "string \<Rightarrow> hook \<Rightarrow> exn + pyval" where
  "get_message_parameter event hook = get_on_event_parameter ''Message'' event hook"

text \<open>
  \<open>__get_idenity_parameter\<close> and \<open>__get_details_parameter\<close> differ in the name of the
  field only; neither uses its argument \<open>event\<close>.
\<close>

definition get_root_parameter :: "string \<Rightarrow> string \<Rightarrow> hook \<Rightarrow> exn + pyval" where
  "get_root_parameter field event hook =
     (let parms = dict_get hook ''Parameters'' (PDict hook)
      in case py_in field parms of
           Inl e \<Rightarrow> Inl e
         | Inr True \<Rightarrow> py_getitem parms field
         | Inr False \<Rightarrow> Inr PNone)"

definition get_idenity_parameter :: "string \<Rightarrow> hook \<Rightarrow> exn + pyval" where
  "get_idenity_parameter event hook = get_root_parameter ''Identity'' event hook"

definition get_details_parameter :: "string \<Rightarrow> hook \<Rightarrow> exn + pyval" where
  "get_details_parameter event hook = get_root_parameter ''Details'' event hook"

text \<open>
  \<open>if v: v = self.renderer.render_string(v, self.context)\<close>: a truthy value becomes the
  rendered string (\<open>Some\<close>), a falsy one stays what it was and is falsy ever after
  (\<open>None\<close>).
\<close>

definition render_if_set :: "env \<Rightarrow> pyval \<Rightarrow> state \<Rightarrow> exn + string option" where
  "render_if_set env v s =
     (if py_truthy v
      then (case render_string env v (context s) of Inl e \<Rightarrow> Inl e | Inr r \<Rightarrow> Inr (Some r))
      else Inr None)"

definition truthy_str :: "string option \<Rightarrow> bool" where
  "truthy_str v = (case v of None \<Rightarrow> False | Some r \<Rightarrow> r \<noteq> [])"

definition hook_message :: "string option \<Rightarrow> string \<Rightarrow> string" where
  "hook_message message reason =
     (let message1 =
            (if reason \<noteq> []
             then (case message of
                     Some m \<Rightarrow> if m \<noteq> [] then Some (m @ '' - '' @ reason) else Some reason
                   | None \<Rightarrow> Some reason)
             else message)
      in case message1 of
           Some m \<Rightarrow> if m \<noteq> [] then m else (if reason \<noteq> [] then reason else [])
         | None \<Rightarrow> (if reason \<noteq> [] then reason else []))"

definition execute_status_hook ::
  "env \<Rightarrow> string \<Rightarrow> hook \<Rightarrow> string \<Rightarrow> state \<Rightarrow> exn option \<times> state" where
  "execute_status_hook env event hook reason s =
     (case get_status_parameter event hook of Inl e \<Rightarrow> (Some e, s) | Inr status0 \<Rightarrow>
      case get_message_parameter event hook of Inl e \<Rightarrow> (Some e, s) | Inr message0 \<Rightarrow>
      case get_idenity_parameter event hook of Inl e \<Rightarrow> (Some e, s) | Inr identity0 \<Rightarrow>
      case get_details_parameter event hook of Inl e \<Rightarrow> (Some e, s) | Inr details \<Rightarrow>
      case render_if_set env status0 s of Inl e \<Rightarrow> (Some e, s) | Inr status \<Rightarrow>
      case render_if_set env identity0 s of Inl e \<Rightarrow> (Some e, s) | Inr identity \<Rightarrow>
      case render_if_set env message0 s of Inl e \<Rightarrow> (Some e, s) | Inr message \<Rightarrow>
      if \<not> truthy_str status
      then (None, emit (LogWarn
              ''Internal - status hook was executed, but no status was defined for event'') s)
      else if \<not> truthy_str identity
      then (None, emit (LogWarn
              ''Internal - status hook was executed, but no identity was defined'') s)
      else update_item_status env (the identity) (the status)
             (hook_message message reason) details s)"

definition execute_lifecycle_hook ::
  "env \<Rightarrow> string \<Rightarrow> pyval \<Rightarrow> hook \<Rightarrow> string \<Rightarrow> state \<Rightarrow> exn option \<times> state" where
  "execute_lifecycle_hook env event hook_type hook reason s =
     (let s0 = emit (HookFired event hook) s in
      if hook_type = PStr LC_TYPE_STATUS
      then execute_status_hook env event hook reason s0
      else (Some (Exn True ''Exception'' (''Unsupported hook type '' @ str_val env hook_type)), s0))"

text \<open>The list comprehension of \<open>__execute_lifecycle_hooks\<close>, and its loop.\<close>

fun event_hooks :: "string \<Rightarrow> hook list \<Rightarrow> exn + hook list" where
  "event_hooks event [] = Inr []"
| "event_hooks event (h # hs) =
     (case py_in event (dict_get h ''States'' (PList [])) of
        Inl e \<Rightarrow> Inl e
      | Inr b \<Rightarrow>
          (case event_hooks event hs of
             Inl e \<Rightarrow> Inl e
           | Inr r \<Rightarrow> Inr (if b then h # r else r)))"

fun run_hooks :: "env \<Rightarrow> string \<Rightarrow> string \<Rightarrow> hook list \<Rightarrow> state \<Rightarrow> exn option \<times> state" where
  "run_hooks env event reason [] s = (None, s)"
| "run_hooks env event reason (event_hook # hs) s =
     (case py_getitem (PDict event_hook) ''Type'' of
        Inl e \<Rightarrow> (Some e, s)
      | Inr hook_type \<Rightarrow>
          (case execute_lifecycle_hook env event hook_type event_hook reason s of
             (Some e, s1) \<Rightarrow> (Some e, s1)
           | (None, s1) \<Rightarrow> run_hooks env event reason hs s1))"

definition execute_lifecycle_hooks ::
  "env \<Rightarrow> action \<Rightarrow> string \<Rightarrow> string \<Rightarrow> state \<Rightarrow> exn option \<times> state" where
  "execute_lifecycle_hooks env a event reason s =
     (case event_hooks event (lifecycle_hooks a) of
        Inl e \<Rightarrow> (Some e, s)
      | Inr hs \<Rightarrow> run_hooks env event reason hs s)"

section \<open>The status of an action\<close>

definition get_status_code :: "action \<Rightarrow> state \<Rightarrow> exn + pyval" where
  "get_status_code a s = get_context s (label a) STATUS_CODE (PStr (StatusCode_value PENDING))"

definition get_status_reason :: "action \<Rightarrow> state \<Rightarrow> exn + pyval" where
  "get_status_reason a s = get_context s (label a) STATUS_REASON PNone"

definition has_status :: "action \<Rightarrow> state \<Rightarrow> StatusCode \<Rightarrow> exn + bool" where
  "has_status a s code =
     (case get_status_code a s of
        Inl e \<Rightarrow> Inl e
      | Inr v \<Rightarrow> Inr (v = PStr (StatusCode_value code)))"

definition is_init :: "action \<Rightarrow> state \<Rightarrow> exn + bool" where
  "is_init a s = has_status a s PENDING"

definition is_failed :: "action \<Rightarrow> state \<Rightarrow> exn + bool" where
  "is_failed a s = has_status a s FAILED"

definition is_running :: "action \<Rightarrow> state \<Rightarrow> exn + bool" where
  "is_running a s = has_status a s RUNNING"

definition is_complete :: "action \<Rightarrow> state \<Rightarrow> exn + bool" where
  "is_complete a s = has_status a s COMPLETE"

text \<open>
  The test every setter starts with, \<open>self.is_X() and self.__get_status_reason() == reason\<close>:
  the reason is read only when the status code is the setter's own.
\<close>

definition duplicate_update :: "action \<Rightarrow> state \<Rightarrow> StatusCode \<Rightarrow> string \<Rightarrow> exn + bool" where
  "duplicate_update a s code reason =
     (case has_status a s code of
        Inl e \<Rightarrow> Inl e
      | Inr False \<Rightarrow> Inr False
      | Inr True \<Rightarrow>
          (case get_status_reason a s of
             Inl e \<Rightarrow> Inl e
           | Inr r \<Rightarrow> Inr (r = PStr reason)))"

text \<open>The two writes every setter ends with.\<close>

definition write_status :: "action \<Rightarrow> StatusCode \<Rightarrow> string \<Rightarrow> state \<Rightarrow> state" where
  "write_status a code reason s =
     set_context (label a) STATUS_REASON (PStr reason)
       (set_context (label a) STATUS_CODE (PStr (StatusCode_value code)) s)"

text \<open>
  \<open>set_failed\<close>, \<open>set_running\<close> and \<open>set_complete\<close> are the same function up to the
  status code and the event: the test, the lifecycle hooks of the event, the two writes.
\<close>

definition set_status ::
  "env \<Rightarrow> action \<Rightarrow> StatusCode \<Rightarrow> string \<Rightarrow> string \<Rightarrow> state \<Rightarrow> exn option \<times> state" where
  "set_status env a code event reason s =
     (case duplicate_update a s code reason of
        Inl e \<Rightarrow> (Some e, s)
      | Inr True \<Rightarrow> (None, s)
      | Inr False \<Rightarrow>
          (case execute_lifecycle_hooks env a event reason s of
             (Some e, s1) \<Rightarrow> (Some e, s1)
           | (None, s1) \<Rightarrow> (None, write_status a code reason s1)))"

definition set_failed :: "env \<Rightarrow> action \<Rightarrow> string \<Rightarrow> state \<Rightarrow> exn option \<times> state" where
  "set_failed env a reason s = set_status env a FAILED LC_HOOK_FAILED reason s"

definition set_running :: "env \<Rightarrow> action \<Rightarrow> string \<Rightarrow> state \<Rightarrow> exn option \<times> state" where
  "set_running env a reason s = set_status env a RUNNING LC_HOOK_RUNNING reason s"

definition set_complete :: "env \<Rightarrow> action \<Rightarrow> string \<Rightarrow> state \<Rightarrow> exn option \<times> state" where
  "set_complete env a reason s = set_status env a COMPLETE LC_HOOK_COMPLETE reason s"

text \<open>\<open>set_skipped\<close>: the test and the two writes, and no lifecycle hook in between.\<close>

definition set_skipped :: "action \<Rightarrow> string \<Rightarrow> state \<Rightarrow> exn option \<times> state" where
  "set_skipped a reason s =
     (case duplicate_update a s COMPLETE reason of
        Inl e \<Rightarrow> (Some e, s)
      | Inr True \<Rightarrow> (None, s)
      | Inr False \<Rightarrow> (None, write_status a COMPLETE reason s))"

section \<open>The runtime: execute and check\<close>

text \<open>The \<open>try\<close> bodies of \<open>execute\<close> and \<open>check\<close>.\<close>

definition execute_body :: "env \<Rightarrow> concrete \<Rightarrow> action \<Rightarrow> state \<Rightarrow> exn option \<times> state" where
  "execute_body env c a s =
     (case render_string env (PStr (''{{ '' @ condition a @ '' }}'')) (context s) of
        Inl e \<Rightarrow> (Some e, s)
      | Inr condition_result \<Rightarrow>
          if lower condition_result = ''true''
          then (case impl_resolve c s of
                  (Some e, s1) \<Rightarrow> (Some e, s1)
                | (None, s1) \<Rightarrow> impl_execute c s1)
          else set_skipped a
                 (''Condition evaluated to '' @ [CHR 0x27] @ condition_result @ [CHR 0x27]) s)"

definition check_body :: "env \<Rightarrow> concrete \<Rightarrow> action \<Rightarrow> state \<Rightarrow> exn option \<times> state" where
  "check_body env c a s =
     (case impl_resolve c s of
        (Some e, s1) \<Rightarrow> (Some e, s1)
      | (None, s1) \<Rightarrow> impl_check c s1)"

text \<open>
  The \<open>except Exception\<close> clause, which \<open>execute\<close> and \<open>check\<close> both carry word for
  word: the reason it builds, and the call of \<open>set_failed\<close>. Whatever \<open>set_failed\<close>
  raises there leaves the call, as does an exception that does not derive from
  \<open>Exception\<close>.
\<close>

definition error_location :: "env \<Rightarrow> exn \<Rightarrow> string \<times> int" where
  "error_location env e =
     (case exc_tb env e of
        Some (co_filename, tb_lineno) \<Rightarrow> (basename co_filename, tb_lineno)
      | None \<Rightarrow> (''Unknown'', - 1))"

definition internal_error :: "env \<Rightarrow> exn \<Rightarrow> string" where
  "internal_error env e =
     (let (fname, lineno) = error_location env e
      in ''Internal error '' @ exc_type_name e @ '' in '' @ fname @ '' at '' @ str_int lineno
           @ '' - '' @ str_exc env e @ [CHR 0x0A] @ ''Traceback:'' @ [CHR 0x0A]
           @ format_exception env e)"

definition trap :: "env \<Rightarrow> action \<Rightarrow> exn option \<times> state \<Rightarrow> exn option \<times> state" where
  "trap env a r =
     (case r of
        (None, s1) \<Rightarrow> (None, s1)
      | (Some e, s1) \<Rightarrow>
          if exc_is_Exception e then set_failed env a (internal_error env e) s1
          else (Some e, s1))"

definition execute :: "env \<Rightarrow> concrete \<Rightarrow> action \<Rightarrow> state \<Rightarrow> exn option \<times> state" where
  "execute env c a s = trap env a (execute_body env c a s)"

definition check :: "env \<Rightarrow> concrete \<Rightarrow> action \<Rightarrow> state \<Rightarrow> exn option \<times> state" where
  "check env c a s = trap env a (check_body env c a s)"

section \<open>Concrete actions\<close>

text \<open>\<open>BaseAction\<close> itself: every method raises \<open>NotImplementedError\<close>.\<close>

definition BaseAction :: concrete where
  "BaseAction =
     \<lparr> impl_resolve = (\<lambda>s. (Some (Exn True ''NotImplementedError'' ''Must implement in subclass''), s)),
       impl_execute = (\<lambda>s. (Some (Exn True ''NotImplementedError'' ''Must implement in subclass''), s)),
       impl_check = (\<lambda>s. (Some (Exn True ''NotImplementedError'' ''Must implement in subclass''), s)) \<rparr>"

text \<open>\<open>NoOpAction\<close> of \<open>actions/system/no_op.py\<close>.\<close>

definition NoOpAction :: "env \<Rightarrow> action \<Rightarrow> concrete" where
  "NoOpAction env a =
     \<lparr> impl_resolve = (\<lambda>s. (None, s)),
       impl_execute = set_complete env a ''No operation required'',
       impl_check = set_complete env a ''No operation required'' \<rparr>"

section \<open>Example instances\<close>

text \<open>
  A renderer that knows the two literal conditions, a tracking collaborator that accepts
  every call, an empty context and an action definition; the concrete inputs used below.
\<close>

definition env0 :: env where
  "env0 =
     \<lparr> render_string = (\<lambda>v ctx. case v of
           PStr t \<Rightarrow> Inr (if t = ''{{ True }}'' then ''True''
                          else if t = ''{{ False }}'' then ''False'' else t)
         | _ \<Rightarrow> Inl (TypeError ''template is not a string'')),
       db_raises = (\<lambda>tr c. None),
       RELEASE_IN_PROGRESS = ''RELEASE_IN_PROGRESS'',
       exc_tb = (\<lambda>e. Some (''/var/task/core_execute/actionlib/action.py'', 213)),
       format_exception = (\<lambda>e. ''Traceback (most recent call last): ''
                                 @ exc_type_name e @ '': '' @ exc_arg e),
       str_exc = exc_arg,
       str_val = (\<lambda>v. case v of PStr t \<Rightarrow> t | _ \<Rightarrow> ''?'') \<rparr>"

definition s0 :: state where
  "s0 = \<lparr> context = Map.empty, trace = [] \<rparr>"

definition example_definition :: "string \<Rightarrow> hook list \<Rightarrow> bool \<Rightarrow> ActionDefinition" where
  "example_definition cond hooks save =
     \<lparr> Label = ''prn:app:br:1:action/deploy'', Type = ''System::NoOp'', Condition = cond,
       Before = [], After = [], DependsOn = [], LifecycleHooks = hooks, SaveOutputs = save \<rparr>"

definition hook_complete :: hook where
  "hook_complete =
     [(''Type'', PStr ''status''),
      (''States'', PList [PStr ''Complete'']),
      (''Parameters'', PDict
         [(''OnComplete'', PDict [(''Status'', PStr ''COMPONENT_COMPLETE''),
                                  (''Message'', PStr ''deployed'')]),
          (''Identity'', PStr ''a:b:c:d:e:f'')])]"

text \<open>
  What the test of a setter decides: the stored status code is the setter's own and the
  stored reason is the reason supplied.
\<close>

definition is_duplicate :: "action \<Rightarrow> state \<Rightarrow> StatusCode \<Rightarrow> string \<Rightarrow> bool" where
  "is_duplicate a s code reason =
     (get_status_code a s = Inr (PStr (StatusCode_value code)) \<and>
      get_status_reason a s = Inr (PStr reason))"

text \<open>Kinds of effect, to count them in a trace.\<close>

fun is_write :: "effect \<Rightarrow> bool" where
  "is_write (SetContext k v) = True"
| "is_write _ = False"

fun is_hook_firing :: "effect \<Rightarrow> bool" where
  "is_hook_firing (HookFired ev h) = True"
| "is_hook_firing _ = False"

fun is_external :: "effect \<Rightarrow> bool" where
  "is_external (Db c) = True"
| "is_external (LogWarn m) = True"
| "is_external _ = False"

definition hook_failed :: hook where
  "hook_failed =
     [(''Type'', PStr ''status''),
      (''States'', PList [PStr ''Failed'']),
      (''Parameters'', PDict
         [(''OnFailed'', PDict [(''Status'', PStr ''COMPONENT_FAILED'')]),
          (''Identity'', PStr ''a:b:c:d:e:f'')])]"

text \<open>
  A tracking collaborator that is unreachable (every call raises \<open>ConnectionError\<close>), and
  one interrupted from the keyboard while it is being called.
\<close>

definition env_down :: env where
  "env_down = env0\<lparr>db_raises :=
     (\<lambda>tr c. Some (Exn True ''ConnectionError'' ''tracking store unreachable''))\<rparr>"

definition env_interrupt :: env where
  "env_interrupt = env0\<lparr>db_raises := (\<lambda>tr c. Some (Exn False ''KeyboardInterrupt'' []))\<rparr>"

text \<open>
  A status hook whose identity and details are nested in the \<open>OnFailed\<close> bundle, with an
  identity at the root of the hook as well; and one without \<open>Parameters\<close>.
\<close>

definition hook_nested :: hook where
  "hook_nested =
     [(''Type'', PStr ''status''),
      (''States'', PList [PStr ''Failed'']),
      (''Parameters'', PDict
         [(''OnFailed'', PDict [(''Status'', PStr ''COMPONENT_FAILED''),
                                (''Identity'', PStr ''a:b:c:d:e:f''),
                                (''Details'', PDict [(''Step'', PStr ''deploy'')])])]),
      (''Identity'', PStr ''a:b:c:d:e:f''),
      (''Details'', PDict [(''Step'', PStr ''deploy'')])]"

definition hook_root :: hook where
  "hook_root =
     [(''Type'', PStr ''status''),
      (''States'', PList [PStr ''Failed'']),
      (''Identity'', PStr ''a:b:c:d:e''),
      (''Details'', PDict [(''Step'', PStr ''deploy'')])]"

text \<open>A lifecycle hook of a type the dispatcher does not know, listening for \<open>Failed\<close>.\<close>

definition hook_email :: hook where
  "hook_email =
     [(''Type'', PStr ''email''),
      (''States'', PList [PStr ''Failed''])]"

section \<open>Properties\<close>

subsection \<open>The context\<close>

lemma set_context_eq [code]:
  "set_context prn name v s =
     s\<lparr>context := (context s)(context_key prn name \<mapsto> v),
       trace := trace s @ [SetContext (context_key prn name) v]\<rparr>"
  by (simp add: set_context_def emit_def Let_def)

lemma get_context_eq [code]:
  "get_context s prn name dflt =
     (case context s (context_key prn name) of
        Some x \<Rightarrow> Inr x
      | None \<Rightarrow> if dflt = NO_DEFAULT
                then Inl (KeyError (''Key '' @ [CHR 0x27] @ name @ [CHR 0x27]
                  @ '' is not in the context and no default was provided''))
                else Inr dflt)"
  by (auto simp add: get_context_def Let_def split: option.splits)

text \<open>
  C7. \<open>set_output(name, value)\<close> on an action built with \<open>SaveOutputs\<close> false (the
  output namespace is \<open>None\<close>) makes one write, to the key of the state namespace; built
  with \<open>SaveOutputs\<close> true it writes the value under the output namespace and then under
  the state namespace. Every other key of the context keeps its value.
\<close>

theorem set_output_frame:
  "(\<not> SaveOutputs d \<longrightarrow>
      output_namespace (init d) = None \<and>
      context (set_output (init d) name v s) =
        (context s)(context_key (state_namespace (init d)) name \<mapsto> v) \<and>
      trace (set_output (init d) name v s) =
        trace s @ [SetContext (context_key (state_namespace (init d)) name) v] \<and>
      (\<forall>k. k \<noteq> context_key (state_namespace (init d)) name \<longrightarrow>
           context (set_output (init d) name v s) k = context s k))
   \<and> (SaveOutputs d \<longrightarrow>
      (\<exists>ns. output_namespace (init d) = Some ns \<and>
        context (set_output (init d) name v s) (context_key ns name) = Some v \<and>
        context (set_output (init d) name v s) (context_key (state_namespace (init d)) name) = Some v \<and>
        trace (set_output (init d) name v s) =
          trace s @ [SetContext (context_key ns name) v,
                     SetContext (context_key (state_namespace (init d)) name) v] \<and>
        (\<forall>k. k \<noteq> context_key ns name \<and> k \<noteq> context_key (state_namespace (init d)) name \<longrightarrow>
           context (set_output (init d) name v s) k = context s k)))"
  by (simp add: set_output_def init_def set_context_eq)

text \<open>Both cases at the action \<open>prn:app:br:1:action/deploy\<close> and an empty context.\<close>

theorem set_output_frame_witness:
  "\<not> SaveOutputs (example_definition ''True'' [] False) \<and>
   context (set_output (init (example_definition ''True'' [] False)) ''ImageId'' (PStr ''ami-1'') s0)
     = [''prn:app:br:1:var/deploy/ImageId'' \<mapsto> PStr ''ami-1''] \<and>
   SaveOutputs (example_definition ''True'' [] True) \<and>
   trace (set_output (init (example_definition ''True'' [] True)) ''ImageId'' (PStr ''ami-1'') s0)
     = [SetContext ''prn:app:br:1:output/ImageId'' (PStr ''ami-1''),
        SetContext ''prn:app:br:1:var/deploy/ImageId'' (PStr ''ami-1'')]"
  using set_output_frame [of "example_definition ''True'' [] False" "''ImageId''" "PStr ''ami-1''" s0]
        set_output_frame [of "example_definition ''True'' [] True" "''ImageId''" "PStr ''ami-1''" s0]
  by (simp add: example_definition_def init_def s0_def context_key_def str_replace_def
        split1_first_def)

text \<open>
  C9. \<open>get_state(name)\<close> on a key of the state namespace that the context does not
  hold raises \<open>KeyError\<close>; it does not return \<open>None\<close>.
\<close>

theorem get_state_missing_key:
  "context s (context_key (state_namespace a) name) = None \<Longrightarrow>
   get_state a s name =
     Inl (KeyError (''Key '' @ [CHR 0x27] @ name @ [CHR 0x27]
            @ '' is not in the context and no default was provided'')) \<and>
   get_state a s name \<noteq> Inr PNone"
  by (simp add: get_state_def get_context_eq)

text \<open>The key \<open>ImageId\<close> in an empty context.\<close>

theorem get_state_missing_key_witness:
  "context s0 (context_key (state_namespace (init (example_definition ''True'' [] False))) ''ImageId'') = None \<and>
   get_state (init (example_definition ''True'' [] False)) s0 ''ImageId'' =
     Inl (Exn True ''KeyError'' ''Key 'ImageId' is not in the context and no default was provided'')"
  using get_state_missing_key [of s0 "init (example_definition ''True'' [] False)" "''ImageId''"]
  by (simp add: s0_def KeyError_def)

text \<open>
  C10. On an action built with \<open>SaveOutputs\<close> false, \<open>get_output(name)\<close> returns \<open>None\<close>
  for every name and every context, and raises nothing. With \<open>SaveOutputs\<close> true the
  same lookup of an absent key raises \<open>KeyError\<close>, as \<open>get_state\<close> does.
\<close>

theorem get_output_disabled:
  "(\<not> SaveOutputs d \<longrightarrow> get_output (init d) s name = Inr PNone) \<and>
   (SaveOutputs d \<longrightarrow>
      (\<exists>ns. output_namespace (init d) = Some ns \<and>
         (context s (context_key ns name) = None \<longrightarrow>
            get_output (init d) s name =
              Inl (KeyError (''Key '' @ [CHR 0x27] @ name @ [CHR 0x27]
                     @ '' is not in the context and no default was provided'')))))"
  by (simp add: get_output_def init_def get_context_eq)

text \<open>Both cases at the key \<open>ImageId\<close> in an empty context.\<close>

theorem get_output_disabled_witness:
  "\<not> SaveOutputs (example_definition ''True'' [] False) \<and>
   get_output (init (example_definition ''True'' [] False)) s0 ''ImageId'' = Inr PNone \<and>
   SaveOutputs (example_definition ''True'' [] True) \<and>
   context s0 ''prn:app:br:1:output/ImageId'' = None \<and>
   get_output (init (example_definition ''True'' [] True)) s0 ''ImageId'' =
     Inl (Exn True ''KeyError'' ''Key 'ImageId' is not in the context and no default was provided'')"
  using get_output_disabled [of "example_definition ''True'' [] False" s0 "''ImageId''"]
        get_output_disabled [of "example_definition ''True'' [] True" s0 "''ImageId''"]
  by (simp add: example_definition_def init_def s0_def context_key_def str_replace_def
        split1_first_def KeyError_def)

subsection \<open>Status and the skip path\<close>

lemma status_keys_differ:
  "context_key l STATUS_CODE \<noteq> context_key l STATUS_REASON"
  by (simp add: context_key_def STATUS_CODE_def STATUS_REASON_def)

lemma get_status_code_eq:
  "get_status_code a s =
     Inr (case context s (context_key (label a) STATUS_CODE) of
            Some v \<Rightarrow> v | None \<Rightarrow> PStr ''pending'')"
  by (simp add: get_status_code_def get_context_eq NO_DEFAULT_def split: option.splits)

lemma get_status_reason_eq:
  "get_status_reason a s =
     Inr (case context s (context_key (label a) STATUS_REASON) of
            Some v \<Rightarrow> v | None \<Rightarrow> PNone)"
  by (simp add: get_status_reason_def get_context_eq NO_DEFAULT_def split: option.splits)

lemma duplicate_update_eq:
  "duplicate_update a s code reason = Inr (is_duplicate a s code reason)"
  by (simp add: duplicate_update_def has_status_def is_duplicate_def get_status_code_eq
        get_status_reason_eq split: bool.splits)

lemma context_write_status:
  "context (write_status a code reason s) =
     (context s)(context_key (label a) STATUS_CODE \<mapsto> PStr (StatusCode_value code),
                 context_key (label a) STATUS_REASON \<mapsto> PStr reason)"
  by (simp add: write_status_def set_context_eq)

lemma trace_write_status:
  "trace (write_status a code reason s) =
     trace s @ [SetContext (context_key (label a) STATUS_CODE) (PStr (StatusCode_value code)),
                SetContext (context_key (label a) STATUS_REASON) (PStr reason)]"
  by (simp add: write_status_def set_context_eq)

lemma status_after_write:
  "get_status_code a (write_status a code reason s) = Inr (PStr (StatusCode_value code))"
  "get_status_reason a (write_status a code reason s) = Inr (PStr reason)"
  using status_keys_differ [of "label a"]
  by (simp_all add: get_status_code_eq get_status_reason_eq context_write_status)

lemma is_duplicate_after_write:
  "is_duplicate a (write_status a code reason s) code reason"
  by (simp add: is_duplicate_def status_after_write)

lemma set_skipped_eq:
  "set_skipped a reason s =
     (None, if is_duplicate a s COMPLETE reason then s else write_status a COMPLETE reason s)"
  by (simp add: set_skipped_def duplicate_update_eq)

lemma status_after_skip:
  "get_status_code a (snd (set_skipped a reason s)) = Inr (PStr ''complete'')"
  "get_status_reason a (snd (set_skipped a reason s)) = Inr (PStr reason)"
  using status_after_write [of a COMPLETE reason s]
  by (auto simp add: set_skipped_eq is_duplicate_def)

lemma execute_skip_eq:
  assumes "render_string env (PStr (''{{ '' @ condition a @ '' }}'')) (context s) = Inr r"
      and "lower r \<noteq> ''true''"
  shows "execute env c a s =
           set_skipped a (''Condition evaluated to '' @ [CHR 0x27] @ r @ [CHR 0x27]) s"
  using assms by (simp add: execute_def execute_body_def trap_def set_skipped_eq)

text \<open>
  C3. When the condition renders, without raising, to a string that is not \<open>true\<close> up
  to case, \<open>execute\<close> returns normally, the stored status code is \<open>complete\<close> and the
  stored reason is \<open>Condition evaluated to '<rendered value>'\<close>; the action is neither
  running nor failed. The result is that of \<open>set_skipped\<close> alone, whatever the concrete
  action's \<open>_resolve\<close> and \<open>_execute\<close> are: they are not called.
\<close>

theorem execute_condition_not_true:
  assumes "render_string env (PStr (''{{ '' @ condition a @ '' }}'')) (context s) = Inr r"
      and "lower r \<noteq> ''true''"
  shows "fst (execute env c a s) = None \<and>
         get_status_code a (snd (execute env c a s)) = Inr (PStr ''complete'') \<and>
         get_status_reason a (snd (execute env c a s)) =
           Inr (PStr (''Condition evaluated to '' @ [CHR 0x27] @ r @ [CHR 0x27])) \<and>
         is_running a (snd (execute env c a s)) = Inr False \<and>
         is_failed a (snd (execute env c a s)) = Inr False \<and>
         execute env c a s =
           set_skipped a (''Condition evaluated to '' @ [CHR 0x27] @ r @ [CHR 0x27]) s \<and>
         (\<forall>c'. execute env c' a s = execute env c a s)"
  using status_after_skip [of a "''Condition evaluated to '' @ [CHR 0x27] @ r @ [CHR 0x27]" s]
  by (simp add: execute_skip_eq [OF assms] is_running_def is_failed_def has_status_def
        set_skipped_eq)

text \<open>The condition \<open>False\<close> on \<open>BaseAction\<close>, whose methods all raise.\<close>

theorem execute_condition_not_true_witness:
  "render_string env0
     (PStr (''{{ '' @ condition (init (example_definition ''False'' [] False)) @ '' }}''))
     (context s0) = Inr ''False'' \<and>
   lower ''False'' \<noteq> ''true'' \<and>
   execute env0 BaseAction (init (example_definition ''False'' [] False)) s0 =
     (None, \<lparr> context = [''prn:app:br:1:action/deploy/StatusCode'' \<mapsto> PStr ''complete'',
                          ''prn:app:br:1:action/deploy/StatusReason''
                             \<mapsto> PStr (''Condition evaluated to 'False'' @ [CHR 0x27])],
              trace = [SetContext ''prn:app:br:1:action/deploy/StatusCode'' (PStr ''complete''),
                       SetContext ''prn:app:br:1:action/deploy/StatusReason''
                         (PStr (''Condition evaluated to 'False'' @ [CHR 0x27]))] \<rparr>)"
  using execute_condition_not_true [of env0 "init (example_definition ''False'' [] False)" s0
          "''False''" BaseAction]
  by (simp add: env0_def example_definition_def init_def s0_def lower_def lower_char_def
        set_skipped_eq is_duplicate_def get_status_code_eq get_status_reason_eq
        context_key_def STATUS_CODE_def STATUS_REASON_def write_status_def set_context_eq)

text \<open>
  C4, as the code has it. The skip path of \<open>execute\<close> fires no lifecycle hook: when the
  condition renders to a string that is not \<open>true\<close> up to case, the call adds to the
  trace the two writes of the status code and the reason, or nothing when the action is
  already complete with that reason; no hook is dispatched and the tracking collaborator
  is not called, whatever hooks the action declares for \<open>Complete\<close>.
\<close>

theorem skip_fires_no_hook:
  assumes "render_string env (PStr (''{{ '' @ condition a @ '' }}'')) (context s) = Inr r"
      and "lower r \<noteq> ''true''"
  shows "trace (snd (execute env c a s)) =
           trace s @
           (if is_duplicate a s COMPLETE (''Condition evaluated to '' @ [CHR 0x27] @ r @ [CHR 0x27])
            then []
            else [SetContext (context_key (label a) STATUS_CODE) (PStr ''complete''),
                  SetContext (context_key (label a) STATUS_REASON)
                    (PStr (''Condition evaluated to '' @ [CHR 0x27] @ r @ [CHR 0x27]))])"
  by (simp add: execute_skip_eq [OF assms] set_skipped_eq trace_write_status)

text \<open>
  An action with a status hook on \<open>Complete\<close> and the condition \<open>False\<close>: the skip
  changes the state and the hook is not fired.
\<close>

theorem skip_fires_no_hook_witness:
  "render_string env0
     (PStr (''{{ '' @ condition (init (example_definition ''False'' [hook_complete] False)) @ '' }}''))
     (context s0) = Inr ''False'' \<and>
   lower ''False'' \<noteq> ''true'' \<and>
   trace (snd (execute env0 BaseAction
                 (init (example_definition ''False'' [hook_complete] False)) s0)) =
     [SetContext ''prn:app:br:1:action/deploy/StatusCode'' (PStr ''complete''),
      SetContext ''prn:app:br:1:action/deploy/StatusReason''
        (PStr (''Condition evaluated to 'False'' @ [CHR 0x27]))]"
  using skip_fires_no_hook [of env0 "init (example_definition ''False'' [hook_complete] False)" s0
          "''False''" BaseAction]
  by (simp add: env0_def example_definition_def init_def s0_def lower_def lower_char_def
        is_duplicate_def get_status_code_eq get_status_reason_eq
        context_key_def STATUS_CODE_def STATUS_REASON_def)

lemmas hook_eval =
  execute_lifecycle_hooks_def execute_lifecycle_hook_def execute_status_hook_def
  get_status_parameter_def get_message_parameter_def get_idenity_parameter_def
  get_details_parameter_def get_on_event_parameter_def get_root_parameter_def
  render_if_set_def truthy_str_def hook_message_def py_in_def py_getitem_def dict_get_def
  py_truthy_def update_item_status_def update_item_status_body_def update_build_def
  update_component_def call_db_def emit_def LC_TYPE_STATUS_def LC_HOOK_FAILED_def
  LC_HOOK_RUNNING_def LC_HOOK_COMPLETE_def TypeError_def KeyError_def

lemmas status_eval =
  set_status_def set_failed_def set_running_def set_complete_def duplicate_update_eq
  is_duplicate_def get_status_code_eq get_status_reason_eq write_status_def set_context_eq
  context_key_def STATUS_CODE_def STATUS_REASON_def

lemmas example_eval =
  env0_def s0_def example_definition_def init_def str_replace_def split1_first_def
  split1_last_def lower_def lower_char_def

text \<open>
  C4, as stated, fails: the action below declares a status hook for \<open>Complete\<close>, its
  condition renders to \<open>False\<close> and the skip changes the state, yet \<open>execute\<close> does
  not dispatch the hook; \<open>set_complete\<close> with the same reason does.
\<close>

theorem skip_fires_no_hook_counterexample:
  "event_hooks LC_HOOK_COMPLETE
     (lifecycle_hooks (init (example_definition ''False'' [hook_complete] False)))
     = Inr [hook_complete] \<and>
   \<not> is_duplicate (init (example_definition ''False'' [hook_complete] False)) s0 COMPLETE
       (''Condition evaluated to 'False'' @ [CHR 0x27]) \<and>
   HookFired ''Complete'' hook_complete \<notin>
     set (trace (snd (execute env0
            (NoOpAction env0 (init (example_definition ''False'' [hook_complete] False)))
            (init (example_definition ''False'' [hook_complete] False)) s0))) \<and>
   trace (snd (set_complete env0 (init (example_definition ''False'' [hook_complete] False))
            (''Condition evaluated to 'False'' @ [CHR 0x27]) s0)) =
     [HookFired ''Complete'' hook_complete,
      Db (UpdateStatus ''a:b:c:d:e:f'' ''COMPONENT_COMPLETE''
            (Some (''deployed - Condition evaluated to 'False'' @ [CHR 0x27])) (Some PNone)),
      SetContext ''prn:app:br:1:action/deploy/StatusCode'' (PStr ''complete''),
      SetContext ''prn:app:br:1:action/deploy/StatusReason''
        (PStr (''Condition evaluated to 'False'' @ [CHR 0x27]))]"
  by (simp add: hook_eval status_eval example_eval hook_complete_def execute_def
        execute_body_def trap_def set_skipped_def NoOpAction_def)

subsection \<open>What a lifecycle hook can do\<close>

lemma external_filters:
  "list_all is_external es \<Longrightarrow> filter is_hook_firing es = [] \<and> filter is_write es = []"
proof (induction es)
  case Nil
  then show ?case by simp
next
  case (Cons x xs)
  then show ?case by (cases x) simp_all
qed

lemma call_db_effect:
  "call_db env c s = (r, s1) \<Longrightarrow> context s1 = context s \<and> trace s1 = trace s @ [Db c]"
  by (auto simp add: call_db_def emit_def)

lemma update_build_effect:
  assumes "update_build env ps st m d s = (r, s1)"
  shows "context s1 = context s \<and> (\<exists>es. trace s1 = trace s @ es \<and> list_all is_external es)"
  using assms
  by (auto simp add: update_build_def call_db_def emit_def Let_def
        split: if_splits option.splits)

lemma update_component_effect:
  assumes "update_component env ps st m d s = (r, s1)"
  shows "context s1 = context s \<and> (\<exists>es. trace s1 = trace s @ es \<and> list_all is_external es)"
  using assms
  by (auto simp add: update_component_def call_db_def emit_def Let_def
        split: if_splits option.splits)

lemma update_item_status_body_effect:
  assumes "update_item_status_body env i st m d s = (r, s1)"
  shows "context s1 = context s \<and> (\<exists>es. trace s1 = trace s @ es \<and> list_all is_external es)"
proof -
  obtain r0 s0' where b: "update_build env (split_colon i) st m d s = (r0, s0')"
    by (cases "update_build env (split_colon i) st m d s")
  note eb = update_build_effect [OF b]
  show ?thesis
  proof (cases r0)
    case (Some e)
    with assms b have "s1 = s0'" by (simp add: update_item_status_body_def)
    with eb show ?thesis by simp
  next
    case None
    with assms b have c: "update_component env (split_colon i) st m d s0' = (r, s1)"
      by (simp add: update_item_status_body_def)
    from update_component_effect [OF c] eb show ?thesis by auto
  qed
qed

lemma update_item_status_effect:
  assumes "update_item_status env i st m d s = (r, s1)"
  shows "context s1 = context s \<and> (\<exists>es. trace s1 = trace s @ es \<and> list_all is_external es)"
proof -
  obtain r0 s0' where b: "update_item_status_body env i st m d s = (r0, s0')"
    by (cases "update_item_status_body env i st m d s")
  from update_item_status_body_effect [OF b] obtain es where
    es: "context s0' = context s" "trace s0' = trace s @ es" "list_all is_external es"
    by auto
  from assms b have "s1 = s0' \<or> (\<exists>w. s1 = emit (LogWarn w) s0')"
    by (auto simp add: update_item_status_def split: option.splits if_splits)
  then show ?thesis
  proof
    assume "s1 = s0'"
    with es show ?thesis by auto
  next
    assume "\<exists>w. s1 = emit (LogWarn w) s0'"
    then obtain w where "s1 = emit (LogWarn w) s0'" by auto
    with es have "context s1 = context s" "trace s1 = trace s @ (es @ [LogWarn w])"
      "list_all is_external (es @ [LogWarn w])"
      by (simp_all add: emit_def)
    then show ?thesis by blast
  qed
qed

lemma execute_status_hook_effect:
  assumes "execute_status_hook env event hook reason s = (r, s1)"
  shows "context s1 = context s \<and> (\<exists>es. trace s1 = trace s @ es \<and> list_all is_external es)"
proof -
  have "s1 = s \<or> (\<exists>w. s1 = emit (LogWarn w) s) \<or>
        (\<exists>i st m d. update_item_status env i st m d s = (r, s1))"
    using assms
    by (auto simp add: execute_status_hook_def split: sum.splits if_splits)
  then show ?thesis
  proof (elim disjE exE)
    assume "s1 = s"
    then show ?thesis by simp
  next
    fix w assume "s1 = emit (LogWarn w) s"
    then have "context s1 = context s" "trace s1 = trace s @ [LogWarn w]"
      by (simp_all add: emit_def)
    then show ?thesis by simp
  next
    fix i st m d assume "update_item_status env i st m d s = (r, s1)"
    then show ?thesis by (rule update_item_status_effect)
  qed
qed

lemma execute_lifecycle_hook_effect:
  assumes "execute_lifecycle_hook env event ht hook reason s = (r, s1)"
  shows "context s1 = context s \<and>
         (\<exists>es. trace s1 = trace s @ HookFired event hook # es \<and> list_all is_external es)"
proof (cases "ht = PStr LC_TYPE_STATUS")
  case True
  with assms have "execute_status_hook env event hook reason (emit (HookFired event hook) s)
      = (r, s1)"
    by (simp add: execute_lifecycle_hook_def)
  from execute_status_hook_effect [OF this] show ?thesis
    by (auto simp add: emit_def)
next
  case False
  with assms have "s1 = emit (HookFired event hook) s"
    by (simp add: execute_lifecycle_hook_def)
  then show ?thesis by (simp add: emit_def)
qed

lemma run_hooks_context:
  "run_hooks env event reason hs s = (r, s1) \<Longrightarrow> context s1 = context s"
proof (induction hs arbitrary: s)
  case Nil
  then show ?case by simp
next
  case (Cons h hs)
  show ?case
  proof (cases "py_getitem (PDict h) ''Type''")
    case (Inl e)
    with Cons.prems show ?thesis by simp
  next
    case (Inr ht)
    obtain r0 s0' where b: "execute_lifecycle_hook env event ht h reason s = (r0, s0')"
      by (cases "execute_lifecycle_hook env event ht h reason s")
    from execute_lifecycle_hook_effect [OF b] have c: "context s0' = context s" by simp
    show ?thesis
    proof (cases r0)
      case (Some e)
      with Cons.prems Inr b c show ?thesis by simp
    next
      case None
      with Cons.prems Inr b have "run_hooks env event reason hs s0' = (r, s1)" by simp
      from Cons.IH [OF this] c show ?thesis by simp
    qed
  qed
qed

lemma run_hooks_trace:
  "run_hooks env event reason hs s = (None, s1) \<Longrightarrow>
   \<exists>es. trace s1 = trace s @ es \<and> filter is_hook_firing es = map (HookFired event) hs \<and>
        filter is_write es = []"
proof (induction hs arbitrary: s)
  case Nil
  then show ?case by simp
next
  case (Cons h hs)
  show ?case
  proof (cases "py_getitem (PDict h) ''Type''")
    case (Inl e)
    with Cons.prems show ?thesis by simp
  next
    case (Inr ht)
    obtain r0 s0' where b: "execute_lifecycle_hook env event ht h reason s = (r0, s0')"
      by (cases "execute_lifecycle_hook env event ht h reason s")
    from execute_lifecycle_hook_effect [OF b] obtain es where
      es: "trace s0' = trace s @ HookFired event h # es" "list_all is_external es"
      by auto
    show ?thesis
    proof (cases r0)
      case (Some e)
      with Cons.prems Inr b show ?thesis by simp
    next
      case None
      with Cons.prems Inr b have "run_hooks env event reason hs s0' = (None, s1)" by simp
      from Cons.IH [OF this] obtain es' where
        es': "trace s1 = trace s0' @ es'" "filter is_hook_firing es' = map (HookFired event) hs"
          "filter is_write es' = []"
        by auto
      from es es' external_filters [OF es(2)]
      have "trace s1 = trace s @ (HookFired event h # es @ es')"
        "filter is_hook_firing (HookFired event h # es @ es') = map (HookFired event) (h # hs)"
        "filter is_write (HookFired event h # es @ es') = []"
        by simp_all
      then show ?thesis by blast
    qed
  qed
qed

lemma execute_lifecycle_hooks_context:
  "execute_lifecycle_hooks env a event reason s = (r, s1) \<Longrightarrow> context s1 = context s"
  by (auto simp add: execute_lifecycle_hooks_def split: sum.splits dest: run_hooks_context)

lemma execute_lifecycle_hooks_trace:
  "execute_lifecycle_hooks env a event reason s = (None, s1) \<Longrightarrow>
   \<exists>hs es. event_hooks event (lifecycle_hooks a) = Inr hs \<and> trace s1 = trace s @ es \<and>
     filter is_hook_firing es = map (HookFired event) hs \<and> filter is_write es = []"
  by (auto simp add: execute_lifecycle_hooks_def split: sum.splits dest: run_hooks_trace)

subsection \<open>The setters\<close>

lemma set_status_duplicate:
  "is_duplicate a s code reason \<Longrightarrow> set_status env a code event reason s = (None, s)"
  by (simp add: set_status_def duplicate_update_eq)

lemma set_status_returns:
  assumes "set_status env a code event reason s = (None, s1)"
  shows "is_duplicate a s1 code reason"
proof (cases "is_duplicate a s code reason")
  case True
  with assms show ?thesis by (simp add: set_status_duplicate)
next
  case False
  with assms obtain s' where "s1 = write_status a code reason s'"
    by (auto simp add: set_status_def duplicate_update_eq split: prod.splits option.splits)
  then show ?thesis by (simp add: is_duplicate_after_write)
qed

lemma set_status_changes:
  assumes "set_status env a code event reason s = (None, s1)"
      and "\<not> is_duplicate a s code reason"
  shows "\<exists>hs es. event_hooks event (lifecycle_hooks a) = Inr hs \<and>
           trace s1 = trace s @ es @
             [SetContext (context_key (label a) STATUS_CODE) (PStr (StatusCode_value code)),
              SetContext (context_key (label a) STATUS_REASON) (PStr reason)] \<and>
           filter is_hook_firing es = map (HookFired event) hs \<and> filter is_write es = []"
proof -
  from assms obtain s' where
    h: "execute_lifecycle_hooks env a event reason s = (None, s')"
    and w: "s1 = write_status a code reason s'"
    by (auto simp add: set_status_def duplicate_update_eq split: prod.splits option.splits)
  from execute_lifecycle_hooks_trace [OF h] w show ?thesis
    by (auto simp add: trace_write_status)
qed

lemma run_hooks_no_write:
  "run_hooks env event reason hs s = (r, s1) \<Longrightarrow>
   \<exists>es. trace s1 = trace s @ es \<and> filter is_write es = []"
proof (induction hs arbitrary: s)
  case Nil
  then show ?case by simp
next
  case (Cons h hs)
  show ?case
  proof (cases "py_getitem (PDict h) ''Type''")
    case (Inl e)
    with Cons.prems show ?thesis by simp
  next
    case (Inr ht)
    obtain r0 s0' where b: "execute_lifecycle_hook env event ht h reason s = (r0, s0')"
      by (cases "execute_lifecycle_hook env event ht h reason s")
    from execute_lifecycle_hook_effect [OF b] obtain es where
      es: "trace s0' = trace s @ HookFired event h # es" "list_all is_external es"
      by auto
    from es external_filters [OF es(2)]
    have w: "trace s0' = trace s @ (HookFired event h # es)"
      "filter is_write (HookFired event h # es) = []"
      by simp_all
    show ?thesis
    proof (cases r0)
      case (Some e)
      with Cons.prems Inr b have "s1 = s0'" by simp
      with w show ?thesis by blast
    next
      case None
      with Cons.prems Inr b have "run_hooks env event reason hs s0' = (r, s1)" by simp
      from Cons.IH [OF this] obtain es' where
        es': "trace s1 = trace s0' @ es'" "filter is_write es' = []"
        by auto
      from w es' have "trace s1 = trace s @ ((HookFired event h # es) @ es')"
        "filter is_write ((HookFired event h # es) @ es') = []"
        by simp_all
      then show ?thesis by blast
    qed
  qed
qed

lemma execute_lifecycle_hooks_no_write:
  "execute_lifecycle_hooks env a event reason s = (r, s1) \<Longrightarrow>
   \<exists>es. trace s1 = trace s @ es \<and> filter is_write es = []"
  by (auto simp add: execute_lifecycle_hooks_def split: sum.splits dest: run_hooks_no_write)

lemma is_duplicate_context:
  "context s1 = context s \<Longrightarrow> is_duplicate a s1 code reason = is_duplicate a s code reason"
  by (simp add: is_duplicate_def get_status_code_eq get_status_reason_eq)

lemma set_status_eq:
  "set_status env a code event reason s =
     (if is_duplicate a s code reason then (None, s)
      else (case execute_lifecycle_hooks env a event reason s of
              (Some e, s1) \<Rightarrow> (Some e, s1)
            | (None, s1) \<Rightarrow> (None, write_status a code reason s1)))"
  by (simp add: set_status_def duplicate_update_eq)

text \<open>
  C2, as the code has it. A setter called when the stored status code is already its own
  and the stored reason is the reason supplied returns at once and leaves the state as it
  is: no lifecycle hook is dispatched, the tracking collaborator is not called and
  nothing is written. Otherwise the setter dispatches the lifecycle hooks of its event.
  When they raise nothing, it writes the status code and the reason, and a second call
  with the same reason returns that state unchanged: the two calls together dispatch
  each listening hook once and make the two status writes once. When a hook raises, the
  exception leaves the setter, nothing is written, and a second call dispatches the
  hooks again.
\<close>

theorem setter_idempotent:
  assumes "(setter, code, event) \<in>
             {(set_failed, FAILED, LC_HOOK_FAILED),
              (set_running, RUNNING, LC_HOOK_RUNNING),
              (set_complete, COMPLETE, LC_HOOK_COMPLETE)}"
  shows "(get_status_code a s = Inr (PStr (StatusCode_value code)) \<and>
          get_status_reason a s = Inr (PStr reason)
            \<longrightarrow> setter env a reason s = (None, s)) \<and>
         (\<not> is_duplicate a s code reason \<and>
          execute_lifecycle_hooks env a event reason s = (None, s1)
            \<longrightarrow> setter env a reason s = (None, write_status a code reason s1) \<and>
                setter env a reason (write_status a code reason s1) =
                  (None, write_status a code reason s1) \<and>
                (\<exists>hs es. event_hooks event (lifecycle_hooks a) = Inr hs \<and>
                   trace (write_status a code reason s1) = trace s @ es @
                     [SetContext (context_key (label a) STATUS_CODE)
                        (PStr (StatusCode_value code)),
                      SetContext (context_key (label a) STATUS_REASON) (PStr reason)] \<and>
                   filter is_hook_firing es = map (HookFired event) hs \<and>
                   filter is_write es = [])) \<and>
         (\<not> is_duplicate a s code reason \<and>
          execute_lifecycle_hooks env a event reason s = (Some e, s1)
            \<longrightarrow> setter env a reason s = (Some e, s1) \<and>
                context s1 = context s \<and>
                (\<exists>es. trace s1 = trace s @ es \<and> filter is_write es = []) \<and>
                setter env a reason s1 =
                  (case execute_lifecycle_hooks env a event reason s1 of
                     (Some e', s2) \<Rightarrow> (Some e', s2)
                   | (None, s2) \<Rightarrow> (None, write_status a code reason s2)))"
proof -
  have eq: "setter env a reason t = set_status env a code event reason t" for t
    using assms by (auto simp add: set_failed_def set_running_def set_complete_def)
  have p1: "setter env a reason s = (None, s)"
    if "get_status_code a s = Inr (PStr (StatusCode_value code)) \<and>
        get_status_reason a s = Inr (PStr reason)"
    using that by (simp add: eq set_status_eq is_duplicate_def)
  have p2: "setter env a reason s = (None, write_status a code reason s1) \<and>
            setter env a reason (write_status a code reason s1) =
              (None, write_status a code reason s1) \<and>
            (\<exists>hs es. event_hooks event (lifecycle_hooks a) = Inr hs \<and>
               trace (write_status a code reason s1) = trace s @ es @
                 [SetContext (context_key (label a) STATUS_CODE)
                    (PStr (StatusCode_value code)),
                  SetContext (context_key (label a) STATUS_REASON) (PStr reason)] \<and>
               filter is_hook_firing es = map (HookFired event) hs \<and>
               filter is_write es = [])"
    if h: "\<not> is_duplicate a s code reason \<and>
           execute_lifecycle_hooks env a event reason s = (None, s1)"
  proof -
    from h have a1: "setter env a reason s = (None, write_status a code reason s1)"
      by (simp add: eq set_status_eq)
    have a2: "setter env a reason (write_status a code reason s1) =
                (None, write_status a code reason s1)"
      by (simp add: eq set_status_eq is_duplicate_after_write)
    from h have "execute_lifecycle_hooks env a event reason s = (None, s1)" by simp
    from execute_lifecycle_hooks_trace [OF this]
    have a3: "\<exists>hs es. event_hooks event (lifecycle_hooks a) = Inr hs \<and>
               trace (write_status a code reason s1) = trace s @ es @
                 [SetContext (context_key (label a) STATUS_CODE)
                    (PStr (StatusCode_value code)),
                  SetContext (context_key (label a) STATUS_REASON) (PStr reason)] \<and>
               filter is_hook_firing es = map (HookFired event) hs \<and>
               filter is_write es = []"
      by (auto simp add: trace_write_status)
    from a1 a2 a3 show ?thesis by (intro conjI)
  qed
  have p3: "setter env a reason s = (Some e, s1) \<and>
            context s1 = context s \<and>
            (\<exists>es. trace s1 = trace s @ es \<and> filter is_write es = []) \<and>
            setter env a reason s1 =
              (case execute_lifecycle_hooks env a event reason s1 of
                 (Some e', s2) \<Rightarrow> (Some e', s2)
               | (None, s2) \<Rightarrow> (None, write_status a code reason s2))"
    if h: "\<not> is_duplicate a s code reason \<and>
           execute_lifecycle_hooks env a event reason s = (Some e, s1)"
  proof -
    from h have x: "execute_lifecycle_hooks env a event reason s = (Some e, s1)" by simp
    from h have b1: "setter env a reason s = (Some e, s1)"
      by (simp add: eq set_status_eq)
    have b2: "context s1 = context s"
      using x by (rule execute_lifecycle_hooks_context)
    have b3: "\<exists>es. trace s1 = trace s @ es \<and> filter is_write es = []"
      using x by (rule execute_lifecycle_hooks_no_write)
    from h is_duplicate_context [OF b2, of a code reason]
    have "\<not> is_duplicate a s1 code reason"
      by simp
    then have b4: "setter env a reason s1 =
              (case execute_lifecycle_hooks env a event reason s1 of
                 (Some e', s2) \<Rightarrow> (Some e', s2)
               | (None, s2) \<Rightarrow> (None, write_status a code reason s2))"
      by (simp add: eq set_status_eq)
    from b1 b2 b3 b4 show ?thesis by (intro conjI)
  qed
  show ?thesis
    by (intro conjI; rule impI; (erule p1 | erule p2 | erule p3))
qed

text \<open>
  \<open>set_failed\<close> with one status hook for \<open>Failed\<close>: the first call dispatches the hook,
  which reaches the component and its build, and writes the status; the second call
  returns the same state. With a hook of an unknown type the dispatch raises.
\<close>

theorem setter_idempotent_witness:
  "(set_failed, FAILED, LC_HOOK_FAILED) \<in>
     {(set_failed, FAILED, LC_HOOK_FAILED),
      (set_running, RUNNING, LC_HOOK_RUNNING),
      (set_complete, COMPLETE, LC_HOOK_COMPLETE)} \<and>
   \<not> is_duplicate (init (example_definition ''True'' [hook_failed] False)) s0 FAILED ''boom'' \<and>
   fst (execute_lifecycle_hooks env0 (init (example_definition ''True'' [hook_failed] False))
          LC_HOOK_FAILED ''boom'' s0) = None \<and>
   set_failed env0 (init (example_definition ''True'' [hook_failed] False)) ''boom'' s0 =
     (None, \<lparr> context = [''prn:app:br:1:action/deploy/StatusCode'' \<mapsto> PStr ''failed'',
                          ''prn:app:br:1:action/deploy/StatusReason'' \<mapsto> PStr ''boom''],
              trace = [HookFired ''Failed'' hook_failed,
                Db (UpdateStatus ''a:b:c:d:e:f'' ''COMPONENT_FAILED'' (Some ''boom'') (Some PNone)),
                Db (UpdateStatus ''a:b:c:d:e'' ''COMPONENT_FAILED'' None None),
                SetContext ''prn:app:br:1:action/deploy/StatusCode'' (PStr ''failed''),
                SetContext ''prn:app:br:1:action/deploy/StatusReason'' (PStr ''boom'')] \<rparr>) \<and>
   get_status_code (init (example_definition ''True'' [hook_failed] False))
     (snd (set_failed env0 (init (example_definition ''True'' [hook_failed] False))
             ''boom'' s0)) = Inr (PStr (StatusCode_value FAILED)) \<and>
   get_status_reason (init (example_definition ''True'' [hook_failed] False))
     (snd (set_failed env0 (init (example_definition ''True'' [hook_failed] False))
             ''boom'' s0)) = Inr (PStr ''boom'') \<and>
   set_failed env0 (init (example_definition ''True'' [hook_failed] False)) ''boom''
     (snd (set_failed env0 (init (example_definition ''True'' [hook_failed] False))
             ''boom'' s0)) =
     (None, snd (set_failed env0 (init (example_definition ''True'' [hook_failed] False))
                   ''boom'' s0)) \<and>
   \<not> is_duplicate (init (example_definition ''True'' [hook_email] False)) s0 FAILED ''boom'' \<and>
   execute_lifecycle_hooks env0 (init (example_definition ''True'' [hook_email] False))
     LC_HOOK_FAILED ''boom'' s0 =
     (Some (Exn True ''Exception'' ''Unsupported hook type email''),
      \<lparr> context = Map.empty, trace = [HookFired ''Failed'' hook_email] \<rparr>) \<and>
   set_failed env0 (init (example_definition ''True'' [hook_email] False)) ''boom'' s0 =
     (Some (Exn True ''Exception'' ''Unsupported hook type email''),
      \<lparr> context = Map.empty, trace = [HookFired ''Failed'' hook_email] \<rparr>)"
proof -
  let ?a = "init (example_definition ''True'' [hook_failed] False)"
  let ?b = "init (example_definition ''True'' [hook_email] False)"
  let ?s1 = "\<lparr> context = Map.empty,
               trace = [HookFired ''Failed'' hook_failed,
                Db (UpdateStatus ''a:b:c:d:e:f'' ''COMPONENT_FAILED'' (Some ''boom'') (Some PNone)),
                Db (UpdateStatus ''a:b:c:d:e'' ''COMPONENT_FAILED'' None None)] \<rparr>"
  let ?s2 = "\<lparr> context = Map.empty, trace = [HookFired ''Failed'' hook_email] \<rparr>"
  let ?x = "Exn True ''Exception'' ''Unsupported hook type email''"
  have m: "(set_failed, FAILED, LC_HOOK_FAILED) \<in>
     {(set_failed, FAILED, LC_HOOK_FAILED),
      (set_running, RUNNING, LC_HOOK_RUNNING),
      (set_complete, COMPLETE, LC_HOOK_COMPLETE)}"
    by simp
  have n: "\<not> is_duplicate ?a s0 FAILED ''boom''" "\<not> is_duplicate ?b s0 FAILED ''boom''"
    by (simp_all add: status_eval example_eval)
  have h: "execute_lifecycle_hooks env0 ?a LC_HOOK_FAILED ''boom'' s0 = (None, ?s1)"
    by (simp add: hook_eval example_eval hook_failed_def)
  have k: "execute_lifecycle_hooks env0 ?b LC_HOOK_FAILED ''boom'' s0 = (Some ?x, ?s2)"
    by (simp add: hook_eval example_eval hook_email_def)
  have w: "write_status ?a FAILED ''boom'' ?s1 =
     \<lparr> context = [''prn:app:br:1:action/deploy/StatusCode'' \<mapsto> PStr ''failed'',
                   ''prn:app:br:1:action/deploy/StatusReason'' \<mapsto> PStr ''boom''],
       trace = [HookFired ''Failed'' hook_failed,
                Db (UpdateStatus ''a:b:c:d:e:f'' ''COMPONENT_FAILED'' (Some ''boom'') (Some PNone)),
                Db (UpdateStatus ''a:b:c:d:e'' ''COMPONENT_FAILED'' None None),
                SetContext ''prn:app:br:1:action/deploy/StatusCode'' (PStr ''failed''),
                SetContext ''prn:app:br:1:action/deploy/StatusReason'' (PStr ''boom'')] \<rparr>"
    by (simp add: status_eval example_eval)
  have g: "get_status_code ?a (write_status ?a FAILED ''boom'' ?s1)
             = Inr (PStr (StatusCode_value FAILED))"
    "get_status_reason ?a (write_status ?a FAILED ''boom'' ?s1) = Inr (PStr ''boom'')"
    by (simp_all add: status_after_write)
  from setter_idempotent [OF m, of ?a s0 "''boom''" env0 ?s1]
       setter_idempotent [OF m, of ?a "write_status ?a FAILED ''boom'' ?s1" "''boom''" env0]
       setter_idempotent [OF m, of ?b s0 "''boom''" env0 ?s2 ?x]
       m n h k g w
  show ?thesis by simp
qed

text \<open>
  C2, as stated, fails when a hook raises. With a status hook and a hook of an unknown
  type, both listening for \<open>Failed\<close>, \<open>set_failed\<close> called twice with the same reason
  dispatches both hooks twice, calls the tracking collaborator four times and writes
  nothing.
\<close>

theorem setter_idempotent_counterexample:
  "set_failed env0 (init (example_definition ''True'' [hook_failed, hook_email] False))
     ''boom'' s0 =
     (Some (Exn True ''Exception'' ''Unsupported hook type email''),
      \<lparr> context = Map.empty,
        trace = [HookFired ''Failed'' hook_failed,
          Db (UpdateStatus ''a:b:c:d:e:f'' ''COMPONENT_FAILED'' (Some ''boom'') (Some PNone)),
          Db (UpdateStatus ''a:b:c:d:e'' ''COMPONENT_FAILED'' None None),
          HookFired ''Failed'' hook_email] \<rparr>) \<and>
   set_failed env0 (init (example_definition ''True'' [hook_failed, hook_email] False))
     ''boom''
     (snd (set_failed env0 (init (example_definition ''True'' [hook_failed, hook_email] False))
             ''boom'' s0)) =
     (Some (Exn True ''Exception'' ''Unsupported hook type email''),
      \<lparr> context = Map.empty,
        trace = [HookFired ''Failed'' hook_failed,
          Db (UpdateStatus ''a:b:c:d:e:f'' ''COMPONENT_FAILED'' (Some ''boom'') (Some PNone)),
          Db (UpdateStatus ''a:b:c:d:e'' ''COMPONENT_FAILED'' None None),
          HookFired ''Failed'' hook_email,
          HookFired ''Failed'' hook_failed,
          Db (UpdateStatus ''a:b:c:d:e:f'' ''COMPONENT_FAILED'' (Some ''boom'') (Some PNone)),
          Db (UpdateStatus ''a:b:c:d:e'' ''COMPONENT_FAILED'' None None),
          HookFired ''Failed'' hook_email] \<rparr>)"
  by (simp add: hook_eval status_eval example_eval hook_failed_def hook_email_def)

subsection \<open>Status propagation\<close>

lemma split_colon_not_Nil: "split_colon s \<noteq> []"
  by (induction s) (auto split: list.splits)

lemma join_colon_Cons_char: "join_colon ((c # x) # xs) = c # join_colon (x # xs)"
  by (cases xs) simp_all

lemma join_colon_empty_head: "xs \<noteq> [] \<Longrightarrow> join_colon ([] # xs) = CHR '':'' # join_colon xs"
  by (cases xs) simp_all

lemma join_split_colon: "join_colon (split_colon s) = s"
proof (induction s)
  case Nil
  then show ?case by simp
next
  case (Cons c cs)
  show ?case
  proof (cases "c = CHR '':''")
    case True
    with Cons show ?thesis by (simp add: join_colon_empty_head split_colon_not_Nil)
  next
    case False
    obtain x xs where "split_colon cs = x # xs"
      using split_colon_not_Nil [of cs] by (cases "split_colon cs") auto
    with False Cons show ?thesis by (simp add: join_colon_Cons_char)
  qed
qed

lemma update_build_skip:
  "length ps \<noteq> 5 \<Longrightarrow> update_build env ps st m d s = (None, s)"
  by (simp add: update_build_def)

text \<open>
  C5, as the code has it. For an identity of exactly six sections and a status that
  contains \<open>_FAILED\<close>, the adapter calls \<open>update_status\<close> on the six-section identity
  with the status, message and details. When that call returns without raising, it then
  calls \<open>update_status\<close> on the five-section prefix with the same status and nothing
  else. When the component update raises, the build is not updated. An exception of
  either call that derives from \<open>Exception\<close> is caught and logged as a warning, and the
  adapter returns normally; any other exception leaves the adapter.
\<close>

theorem component_failure_reaches_build:
  assumes "length (split_colon identity) = 6"
      and "str_contains status ''_FAILED''"
  shows "update_item_status env identity status message details s =
           (case db_raises env (trace s)
                   (UpdateStatus identity status (Some message) (Some details)) of
              Some e \<Rightarrow>
                if exc_is_Exception e
                then (None, s\<lparr>trace := trace s @
                        [Db (UpdateStatus identity status (Some message) (Some details)),
                         LogWarn (''Failed to update status via API - '' @ str_exc env e)]\<rparr>)
                else (Some e, s\<lparr>trace := trace s @
                        [Db (UpdateStatus identity status (Some message) (Some details))]\<rparr>)
            | None \<Rightarrow>
                (case db_raises env
                        (trace s @
                           [Db (UpdateStatus identity status (Some message) (Some details))])
                        (UpdateStatus (join_colon (take 5 (split_colon identity)))
                           status None None) of
                   None \<Rightarrow>
                     (None, s\<lparr>trace := trace s @
                        [Db (UpdateStatus identity status (Some message) (Some details)),
                         Db (UpdateStatus (join_colon (take 5 (split_colon identity)))
                               status None None)]\<rparr>)
                 | Some e \<Rightarrow>
                     if exc_is_Exception e
                     then (None, s\<lparr>trace := trace s @
                        [Db (UpdateStatus identity status (Some message) (Some details)),
                         Db (UpdateStatus (join_colon (take 5 (split_colon identity)))
                               status None None),
                         LogWarn (''Failed to update status via API - '' @ str_exc env e)]\<rparr>)
                     else (Some e, s\<lparr>trace := trace s @
                        [Db (UpdateStatus identity status (Some message) (Some details)),
                         Db (UpdateStatus (join_colon (take 5 (split_colon identity)))
                               status None None)]\<rparr>)))"
  using assms
  by (simp add: update_item_status_def update_item_status_body_def update_build_skip
        update_component_def call_db_def emit_def join_split_colon Let_def
        split: option.splits)

text \<open>
  The identity \<open>a:b:c:d:e:f\<close> and the status \<open>COMPONENT_FAILED\<close>: with a collaborator
  that accepts every call the component and then the build are updated; with one
  interrupted from the keyboard the exception leaves the adapter after the first call.
\<close>

theorem component_failure_reaches_build_witness:
  "length (split_colon ''a:b:c:d:e:f'') = 6 \<and>
   str_contains ''COMPONENT_FAILED'' ''_FAILED'' \<and>
   update_item_status env0 ''a:b:c:d:e:f'' ''COMPONENT_FAILED'' ''boom'' PNone s0 =
     (None, \<lparr> context = Map.empty,
              trace =
                [Db (UpdateStatus ''a:b:c:d:e:f'' ''COMPONENT_FAILED'' (Some ''boom'') (Some PNone)),
                 Db (UpdateStatus ''a:b:c:d:e'' ''COMPONENT_FAILED'' None None)] \<rparr>) \<and>
   update_item_status env_interrupt ''a:b:c:d:e:f'' ''COMPONENT_FAILED'' ''boom'' PNone s0 =
     (Some (Exn False ''KeyboardInterrupt'' []),
      \<lparr> context = Map.empty,
        trace =
          [Db (UpdateStatus ''a:b:c:d:e:f'' ''COMPONENT_FAILED'' (Some ''boom'')
                 (Some PNone))] \<rparr>)"
  using component_failure_reaches_build
          [of "''a:b:c:d:e:f''" "''COMPONENT_FAILED''" env0 "''boom''" PNone s0]
        component_failure_reaches_build
          [of "''a:b:c:d:e:f''" "''COMPONENT_FAILED''" env_interrupt "''boom''" PNone s0]
  by (simp add: env0_def env_interrupt_def s0_def)

text \<open>
  C5, as stated, fails when the tracking collaborator raises on the component update:
  the exception is caught, a warning is logged and the build is never updated.
\<close>

theorem component_failure_reaches_build_counterexample:
  "length (split_colon ''a:b:c:d:e:f'') = 6 \<and>
   str_contains ''COMPONENT_FAILED'' ''_FAILED'' \<and>
   update_item_status env_down ''a:b:c:d:e:f'' ''COMPONENT_FAILED'' ''boom'' PNone s0 =
     (None, \<lparr> context = Map.empty,
              trace =
                [Db (UpdateStatus ''a:b:c:d:e:f'' ''COMPONENT_FAILED'' (Some ''boom'') (Some PNone)),
                 LogWarn ''Failed to update status via API - tracking store unreachable''] \<rparr>)"
  by (simp add: hook_eval example_eval env_down_def)

text \<open>
  C6, as the code has it. When the tracking collaborator raises nothing but exceptions
  that derive from \<open>Exception\<close>, \<open>__update_item_status\<close> returns normally whatever the
  collaborator does and leaves the context, hence the status of the action, as it is; an
  exception raised by a call is logged as a warning.
\<close>

theorem propagation_errors_swallowed:
  assumes "\<forall>tr c e. db_raises env tr c = Some e \<longrightarrow> exc_is_Exception e"
  shows "fst (update_item_status env identity status message details s) = None \<and>
         context (snd (update_item_status env identity status message details s)) = context s \<and>
         (\<forall>e s1. update_item_status_body env identity status message details s = (Some e, s1)
            \<longrightarrow> (\<exists>tr c. db_raises env tr c = Some e) \<and>
                snd (update_item_status env identity status message details s) =
                  emit (LogWarn (''Failed to update status via API - '' @ str_exc env e)) s1)"
proof -
  obtain r s1 where b: "update_item_status_body env identity status message details s = (r, s1)"
    by (cases "update_item_status_body env identity status message details s")
  have src: "\<exists>tr c. db_raises env tr c = Some e" if "r = Some e" for e
    using b that
    by (auto simp add: update_item_status_body_def update_build_def update_component_def
          call_db_def Let_def split: if_splits option.splits prod.splits)
  obtain r' s' where u: "update_item_status env identity status message details s = (r', s')"
    by (cases "update_item_status env identity status message details s")
  from update_item_status_effect [OF u] have c: "context s' = context s" by simp
  show ?thesis
  proof (cases r)
    case None
    with b c u show ?thesis by (simp add: update_item_status_def)
  next
    case (Some e)
    from src [OF Some] assms have "exc_is_Exception e" by blast
    with Some b c u src [OF Some] show ?thesis by (auto simp add: update_item_status_def)
  qed
qed

theorem propagation_errors_swallowed_witness:
  "(\<forall>tr c. db_raises env_down tr c =
            Some (Exn True ''ConnectionError'' ''tracking store unreachable'')) \<and>
   exc_is_Exception (Exn True ''ConnectionError'' ''tracking store unreachable'') \<and>
   update_item_status_body env_down ''a:b:c:d:e:f'' ''COMPONENT_FAILED'' ''boom'' PNone s0 =
     (Some (Exn True ''ConnectionError'' ''tracking store unreachable''),
      \<lparr> context = Map.empty,
        trace = [Db (UpdateStatus ''a:b:c:d:e:f'' ''COMPONENT_FAILED'' (Some ''boom'')
                       (Some PNone))] \<rparr>) \<and>
   fst (update_item_status env_down ''a:b:c:d:e:f'' ''COMPONENT_FAILED'' ''boom'' PNone s0) = None \<and>
   trace (snd (update_item_status env_down ''a:b:c:d:e:f'' ''COMPONENT_FAILED'' ''boom'' PNone s0)) =
     [Db (UpdateStatus ''a:b:c:d:e:f'' ''COMPONENT_FAILED'' (Some ''boom'') (Some PNone)),
      LogWarn ''Failed to update status via API - tracking store unreachable'']"
proof -
  have h: "\<forall>tr c e. db_raises env_down tr c = Some e \<longrightarrow> exc_is_Exception e"
    by (auto simp add: env_down_def)
  have b: "update_item_status_body env_down ''a:b:c:d:e:f'' ''COMPONENT_FAILED'' ''boom'' PNone s0 =
     (Some (Exn True ''ConnectionError'' ''tracking store unreachable''),
      \<lparr> context = Map.empty,
        trace = [Db (UpdateStatus ''a:b:c:d:e:f'' ''COMPONENT_FAILED'' (Some ''boom'')
                       (Some PNone))] \<rparr>)"
    by (simp add: hook_eval example_eval env_down_def)
  from propagation_errors_swallowed
         [OF h, of "''a:b:c:d:e:f''" "''COMPONENT_FAILED''" "''boom''" PNone s0] h b
  show ?thesis by (simp add: emit_def env_down_def env0_def)
qed

text \<open>
  C6, as stated, fails for an exception that does not derive from \<open>Exception\<close>: a
  \<open>KeyboardInterrupt\<close> raised while the collaborator is being called passes the
  \<open>except Exception\<close> clause, leaves \<open>set_failed\<close> before the status is written and
  leaves \<open>execute\<close>.
\<close>

theorem propagation_errors_swallowed_counterexample:
  "fst (update_item_status env_interrupt ''a:b:c:d:e:f'' ''COMPONENT_FAILED'' ''boom'' PNone s0)
     = Some (Exn False ''KeyboardInterrupt'' []) \<and>
   fst (set_failed env_interrupt (init (example_definition ''True'' [hook_failed] False))
          ''boom'' s0) = Some (Exn False ''KeyboardInterrupt'' []) \<and>
   context (snd (set_failed env_interrupt (init (example_definition ''True'' [hook_failed] False))
                   ''boom'' s0)) ''prn:app:br:1:action/deploy/StatusCode'' = None \<and>
   fst (execute env_interrupt BaseAction (init (example_definition ''True'' [hook_failed] False))
          s0) = Some (Exn False ''KeyboardInterrupt'' [])"
  by (simp add: hook_eval status_eval example_eval hook_failed_def env_interrupt_def
        execute_def execute_body_def trap_def BaseAction_def internal_error_def
        error_location_def basename_def str_int_def)

subsection \<open>The parameters of a status hook\<close>

text \<open>
  C8, as the code has it. The status and the message of a hook come from the bundle
  \<open>Parameters["On<Event>"]\<close>, \<open>None\<close> when the bundle lacks the field. The identity and
  the details do not depend on the event: they are the fields \<open>Identity\<close> and \<open>Details\<close>
  of \<open>Parameters\<close> itself when the hook has \<open>Parameters\<close>, and of the hook when it has
  none; \<open>None\<close> when the field is missing there.
\<close>

theorem hook_parameter_lookup:
  "(map_of hook ''Parameters'' = Some (PDict p) \<and> map_of p (''On'' @ event) = Some (PDict b)
      \<longrightarrow> get_status_parameter event hook = Inr (dict_get b ''Status'' PNone) \<and>
          get_message_parameter event hook = Inr (dict_get b ''Message'' PNone)) \<and>
   (map_of hook ''Parameters'' = Some (PDict p)
      \<longrightarrow> get_idenity_parameter event hook = Inr (dict_get p ''Identity'' PNone) \<and>
          get_details_parameter event hook = Inr (dict_get p ''Details'' PNone)) \<and>
   (map_of hook ''Parameters'' = None
      \<longrightarrow> get_idenity_parameter event hook = Inr (dict_get hook ''Identity'' PNone) \<and>
          get_details_parameter event hook = Inr (dict_get hook ''Details'' PNone))"
  by (auto simp add: get_status_parameter_def get_message_parameter_def
        get_idenity_parameter_def get_details_parameter_def get_on_event_parameter_def
        get_root_parameter_def dict_get_def py_in_def py_getitem_def Let_def
        split: option.splits)

text \<open>
  The hook \<open>hook_failed\<close>, with \<open>Identity\<close> in \<open>Parameters\<close>, and the hook \<open>hook_root\<close>,
  with \<open>Identity\<close> at its root and no \<open>Parameters\<close>.
\<close>

theorem hook_parameter_lookup_witness:
  "map_of hook_failed ''Parameters'' =
     Some (PDict [(''OnFailed'', PDict [(''Status'', PStr ''COMPONENT_FAILED'')]),
                  (''Identity'', PStr ''a:b:c:d:e:f'')]) \<and>
   map_of [(''OnFailed'', PDict [(''Status'', PStr ''COMPONENT_FAILED'')]),
           (''Identity'', PStr ''a:b:c:d:e:f'')] (''On'' @ ''Failed'') =
     Some (PDict [(''Status'', PStr ''COMPONENT_FAILED'')]) \<and>
   get_status_parameter ''Failed'' hook_failed = Inr (PStr ''COMPONENT_FAILED'') \<and>
   get_message_parameter ''Failed'' hook_failed = Inr PNone \<and>
   get_idenity_parameter ''Failed'' hook_failed = Inr (PStr ''a:b:c:d:e:f'') \<and>
   get_details_parameter ''Failed'' hook_failed = Inr PNone \<and>
   map_of hook_root ''Parameters'' = None \<and>
   get_idenity_parameter ''Failed'' hook_root = Inr (PStr ''a:b:c:d:e'') \<and>
   get_details_parameter ''Failed'' hook_root = Inr (PDict [(''Step'', PStr ''deploy'')])"
  using hook_parameter_lookup
          [of hook_failed
              "[(''OnFailed'', PDict [(''Status'', PStr ''COMPONENT_FAILED'')]),
                (''Identity'', PStr ''a:b:c:d:e:f'')]"
              "''Failed''" "[(''Status'', PStr ''COMPONENT_FAILED'')]"]
        hook_parameter_lookup [of hook_root "[]" "''Failed''" "[]"]
  by (simp add: hook_failed_def hook_root_def dict_get_def)

text \<open>
  C8, as stated, fails. The hook \<open>hook_nested\<close> carries its identity and details in the
  \<open>OnFailed\<close> bundle and at its root as well; neither is found, since \<open>Parameters\<close>
  exists and has no field \<open>Identity\<close> or \<open>Details\<close> of its own. The hook is then given
  up with a warning and nothing is pushed.
\<close>

theorem hook_parameter_lookup_counterexample:
  "get_status_parameter ''Failed'' hook_nested = Inr (PStr ''COMPONENT_FAILED'') \<and>
   get_idenity_parameter ''Failed'' hook_nested = Inr PNone \<and>
   get_details_parameter ''Failed'' hook_nested = Inr PNone \<and>
   execute_status_hook env0 ''Failed'' hook_nested ''boom'' s0 =
     (None, \<lparr> context = Map.empty,
              trace = [LogWarn
                ''Internal - status hook was executed, but no identity was defined''] \<rparr>)"
  by (simp add: hook_eval example_eval hook_nested_def)

subsection \<open>The trapping boundary\<close>

lemma str_contains_sublist: "str_contains s sub \<longleftrightarrow> sublist sub s"
  by (induction s) (simp_all add: sublist_Cons_right)

lemma str_contains_middle: "str_contains (ps @ sub @ ss) sub"
  by (simp add: str_contains_sublist)

lemma internal_error_parts:
  "internal_error env e =
     ''Internal error '' @ exc_type_name e @
     ('' in '' @ fst (error_location env e) @ '' at '' @ str_int (snd (error_location env e))
        @ '' - '' @ str_exc env e @ [CHR 0x0A] @ ''Traceback:'' @ [CHR 0x0A]
        @ format_exception env e)"
  "internal_error env e =
     (''Internal error '' @ exc_type_name e @ '' in '') @
     (fst (error_location env e) @ '' at '' @ str_int (snd (error_location env e))) @
     ('' - '' @ str_exc env e @ [CHR 0x0A] @ ''Traceback:'' @ [CHR 0x0A]
        @ format_exception env e)"
  "internal_error env e =
     (''Internal error '' @ exc_type_name e @ '' in '' @ fst (error_location env e)
        @ '' at '' @ str_int (snd (error_location env e)) @ '' - '') @
     str_exc env e @
     ([CHR 0x0A] @ ''Traceback:'' @ [CHR 0x0A] @ format_exception env e)"
  "internal_error env e =
     (''Internal error '' @ exc_type_name e @ '' in '' @ fst (error_location env e)
        @ '' at '' @ str_int (snd (error_location env e)) @ '' - '' @ str_exc env e
        @ [CHR 0x0A] @ ''Traceback:'' @ [CHR 0x0A]) @
     format_exception env e @ []"
  by (simp_all add: internal_error_def Let_def split: prod.splits)

lemma internal_error_contains:
  "internal_error env e \<noteq> []"
  "str_contains (internal_error env e) (exc_type_name e)"
  "str_contains (internal_error env e)
     (fst (error_location env e) @ '' at '' @ str_int (snd (error_location env e)))"
  "str_contains (internal_error env e) (str_exc env e)"
  "str_contains (internal_error env e) (format_exception env e)"
proof -
  show "internal_error env e \<noteq> []"
    by (simp add: internal_error_parts(1))
  show "str_contains (internal_error env e) (exc_type_name e)"
    by (subst internal_error_parts(1)) (rule str_contains_middle)
  show "str_contains (internal_error env e)
     (fst (error_location env e) @ '' at '' @ str_int (snd (error_location env e)))"
    by (subst internal_error_parts(2)) (rule str_contains_middle)
  show "str_contains (internal_error env e) (str_exc env e)"
    by (subst internal_error_parts(3)) (rule str_contains_middle)
  show "str_contains (internal_error env e) (format_exception env e)"
    by (subst internal_error_parts(4)) (rule str_contains_middle)
qed

lemma trap_sets_failed:
  assumes "exc_is_Exception e"
      and "fst (execute_lifecycle_hooks env a LC_HOOK_FAILED (internal_error env e) s1) = None"
  shows "fst (trap env a (Some e, s1)) = None \<and>
         get_status_code a (snd (trap env a (Some e, s1))) = Inr (PStr ''failed'') \<and>
         get_status_reason a (snd (trap env a (Some e, s1))) = Inr (PStr (internal_error env e))"
proof (cases "is_duplicate a s1 FAILED (internal_error env e)")
  case True
  with assms(1) have "trap env a (Some e, s1) = (None, s1)"
    by (simp add: trap_def set_failed_def set_status_duplicate)
  with True show ?thesis by (simp add: is_duplicate_def)
next
  case False
  obtain s2 where h: "execute_lifecycle_hooks env a LC_HOOK_FAILED (internal_error env e) s1
      = (None, s2)"
    using assms(2)
    by (cases "execute_lifecycle_hooks env a LC_HOOK_FAILED (internal_error env e) s1") simp
  with False assms(1)
  have "trap env a (Some e, s1) = (None, write_status a FAILED (internal_error env e) s2)"
    by (simp add: trap_def set_failed_def set_status_def duplicate_update_eq)
  then show ?thesis by (simp add: status_after_write)
qed

text \<open>
  C1, as the code has it. An exception that derives from \<open>Exception\<close> and leaves the
  \<open>try\<close> body of \<open>execute\<close> or of \<open>check\<close> (raised by the concrete action's \<open>_resolve\<close>,
  \<open>_execute\<close> or \<open>_check\<close>, or by the rendering of the condition) is trapped, provided
  the lifecycle hooks for \<open>Failed\<close> raise nothing when they are dispatched with the
  diagnostic as the reason: the call returns normally, the stored status code is
  \<open>failed\<close> and the stored reason is the diagnostic, which is not empty and contains
  the name of the exception's type, the file name and line number of its traceback, its
  message and the formatted traceback.
\<close>

theorem exception_trapped:
  assumes "exc_is_Exception e"
      and "fst (execute_lifecycle_hooks env a LC_HOOK_FAILED (internal_error env e) s1) = None"
  shows "(execute_body env c a s = (Some e, s1) \<longrightarrow>
            fst (execute env c a s) = None \<and>
            get_status_code a (snd (execute env c a s)) = Inr (PStr ''failed'') \<and>
            get_status_reason a (snd (execute env c a s)) = Inr (PStr (internal_error env e))) \<and>
         (check_body env c a s = (Some e, s1) \<longrightarrow>
            fst (check env c a s) = None \<and>
            get_status_code a (snd (check env c a s)) = Inr (PStr ''failed'') \<and>
            get_status_reason a (snd (check env c a s)) = Inr (PStr (internal_error env e))) \<and>
         internal_error env e \<noteq> [] \<and>
         str_contains (internal_error env e) (exc_type_name e) \<and>
         str_contains (internal_error env e)
           (fst (error_location env e) @ '' at '' @ str_int (snd (error_location env e))) \<and>
         str_contains (internal_error env e) (str_exc env e) \<and>
         str_contains (internal_error env e) (format_exception env e)"
proof -
  note t = trap_sets_failed [OF assms]
  have x: "execute_body env c a s = (Some e, s1) \<longrightarrow>
            fst (execute env c a s) = None \<and>
            get_status_code a (snd (execute env c a s)) = Inr (PStr ''failed'') \<and>
            get_status_reason a (snd (execute env c a s)) = Inr (PStr (internal_error env e))"
    using t by (simp add: execute_def)
  have k: "check_body env c a s = (Some e, s1) \<longrightarrow>
            fst (check env c a s) = None \<and>
            get_status_code a (snd (check env c a s)) = Inr (PStr ''failed'') \<and>
            get_status_reason a (snd (check env c a s)) = Inr (PStr (internal_error env e))"
    using t by (simp add: check_def)
  from x k internal_error_contains [of env e] show ?thesis
    by (intro conjI)
qed

text \<open>
  \<open>BaseAction\<close>, whose \<open>_resolve\<close> raises \<open>NotImplementedError\<close>, with one status hook
  for \<open>Failed\<close>: \<open>execute\<close> and \<open>check\<close> both end in \<open>failed\<close>.
\<close>

theorem exception_trapped_witness:
  "exc_is_Exception (Exn True ''NotImplementedError'' ''Must implement in subclass'') \<and>
   fst (execute_lifecycle_hooks env0 (init (example_definition ''True'' [hook_failed] False))
          LC_HOOK_FAILED
          (internal_error env0 (Exn True ''NotImplementedError'' ''Must implement in subclass''))
          s0) = None \<and>
   execute_body env0 BaseAction (init (example_definition ''True'' [hook_failed] False)) s0 =
     (Some (Exn True ''NotImplementedError'' ''Must implement in subclass''), s0) \<and>
   check_body env0 BaseAction (init (example_definition ''True'' [hook_failed] False)) s0 =
     (Some (Exn True ''NotImplementedError'' ''Must implement in subclass''), s0) \<and>
   fst (execute env0 BaseAction (init (example_definition ''True'' [hook_failed] False)) s0)
     = None \<and>
   fst (check env0 BaseAction (init (example_definition ''True'' [hook_failed] False)) s0)
     = None \<and>
   get_status_code (init (example_definition ''True'' [hook_failed] False))
     (snd (execute env0 BaseAction (init (example_definition ''True'' [hook_failed] False)) s0))
     = Inr (PStr ''failed'') \<and>
   get_status_reason (init (example_definition ''True'' [hook_failed] False))
     (snd (execute env0 BaseAction (init (example_definition ''True'' [hook_failed] False)) s0))
     = Inr (PStr (''Internal error NotImplementedError in action.py at 213 - ''
                  @ ''Must implement in subclass'' @ [CHR 0x0A] @ ''Traceback:'' @ [CHR 0x0A]
                  @ ''Traceback (most recent call last): ''
                  @ ''NotImplementedError: Must implement in subclass''))"
proof -
  let ?a = "init (example_definition ''True'' [hook_failed] False)"
  let ?e = "Exn True ''NotImplementedError'' ''Must implement in subclass''"
  have i: "internal_error env0 ?e =
      ''Internal error NotImplementedError in action.py at 213 - ''
      @ ''Must implement in subclass'' @ [CHR 0x0A] @ ''Traceback:'' @ [CHR 0x0A]
      @ ''Traceback (most recent call last): ''
      @ ''NotImplementedError: Must implement in subclass''"
    by (simp add: internal_error_def error_location_def env0_def basename_def str_int_def)
  have x: "exc_is_Exception ?e" by simp
  have h: "fst (execute_lifecycle_hooks env0 ?a LC_HOOK_FAILED (internal_error env0 ?e) s0) = None"
    unfolding i by (simp add: hook_eval example_eval hook_failed_def)
  have b: "execute_body env0 BaseAction ?a s0 = (Some ?e, s0)"
    by (simp add: execute_body_def BaseAction_def example_eval)
  have k: "check_body env0 BaseAction ?a s0 = (Some ?e, s0)"
    by (simp add: check_body_def BaseAction_def)
  from exception_trapped [OF x h, of BaseAction s0] x h b k i
  show ?thesis by simp
qed

text \<open>
  C1, as stated, fails. With a hook of an unknown type listening for \<open>Failed\<close>, the
  \<open>set_failed\<close> of the \<open>except\<close> clause raises in its turn: the exception leaves
  \<open>execute\<close> and \<open>check\<close>, and the status of the action is still \<open>pending\<close>.
\<close>

theorem exception_trapped_counterexample:
  "execute_body env0 BaseAction (init (example_definition ''True'' [hook_email] False)) s0 =
     (Some (Exn True ''NotImplementedError'' ''Must implement in subclass''), s0) \<and>
   execute env0 BaseAction (init (example_definition ''True'' [hook_email] False)) s0 =
     (Some (Exn True ''Exception'' ''Unsupported hook type email''),
      \<lparr> context = Map.empty, trace = [HookFired ''Failed'' hook_email] \<rparr>) \<and>
   check env0 BaseAction (init (example_definition ''True'' [hook_email] False)) s0 =
     (Some (Exn True ''Exception'' ''Unsupported hook type email''),
      \<lparr> context = Map.empty, trace = [HookFired ''Failed'' hook_email] \<rparr>) \<and>
   get_status_code (init (example_definition ''True'' [hook_email] False))
     (snd (execute env0 BaseAction (init (example_definition ''True'' [hook_email] False)) s0))
     = Inr (PStr ''pending'')"
  by (simp add: hook_eval status_eval example_eval hook_email_def execute_def check_def
        execute_body_def check_body_def trap_def BaseAction_def internal_error_def
        error_location_def basename_def str_int_def)

end
